theory Spec2Isabelle
  imports Main "HOL-Library.Sublist"
begin

section \<open>Python strings\<close>

text \<open>
  A Python \<open>str\<close> is modelled as a \<open>string\<close> with one \<open>char\<close> per code point; the
  model covers the code points below 256. \<open>lower\<close> is \<open>str.lower\<close>, \<open>strip\<close> is
  \<open>str.strip\<close> with no argument, and \<open>str_in p s\<close> is the expression \<open>p in s\<close> on two
  strings.
\<close>

definition ascii_uppercase :: string where
  "ascii_uppercase = ''ABCDEFGHIJKLMNOPQRSTUVWXYZ''"

definition ascii_lowercase :: string where
  "ascii_lowercase = ''abcdefghijklmnopqrstuvwxyz''"

text \<open>
  The other code points below 256 that \<open>str.lower\<close> changes, U+00C0 to U+00DE without
  the multiplication sign U+00D7, and their lowercase forms, 32 further on.
\<close>

definition latin1_uppercase :: string where
  "latin1_uppercase =
     [CHR 0xC0, CHR 0xC1, CHR 0xC2, CHR 0xC3, CHR 0xC4, CHR 0xC5, CHR 0xC6, CHR 0xC7,
      CHR 0xC8, CHR 0xC9, CHR 0xCA, CHR 0xCB, CHR 0xCC, CHR 0xCD, CHR 0xCE, CHR 0xCF,
      CHR 0xD0, CHR 0xD1, CHR 0xD2, CHR 0xD3, CHR 0xD4, CHR 0xD5, CHR 0xD6,
      CHR 0xD8, CHR 0xD9, CHR 0xDA, CHR 0xDB, CHR 0xDC, CHR 0xDD, CHR 0xDE]"

definition latin1_lowercase :: string where
  "latin1_lowercase =
     [CHR 0xE0, CHR 0xE1, CHR 0xE2, CHR 0xE3, CHR 0xE4, CHR 0xE5, CHR 0xE6, CHR 0xE7,
      CHR 0xE8, CHR 0xE9, CHR 0xEA, CHR 0xEB, CHR 0xEC, CHR 0xED, CHR 0xEE, CHR 0xEF,
      CHR 0xF0, CHR 0xF1, CHR 0xF2, CHR 0xF3, CHR 0xF4, CHR 0xF5, CHR 0xF6,
      CHR 0xF8, CHR 0xF9, CHR 0xFA, CHR 0xFB, CHR 0xFC, CHR 0xFD, CHR 0xFE]"

definition lower_char :: "char \<Rightarrow> char" where
  "lower_char c =
     (case map_of (zip (ascii_uppercase @ latin1_uppercase)
                       (ascii_lowercase @ latin1_lowercase)) c of
        None \<Rightarrow> c
      | Some d \<Rightarrow> d)"

definition lower :: "string \<Rightarrow> string" where
  "lower s = map lower_char s"

text \<open>
  The code points below 256 for which \<open>str.isspace\<close> holds: the ASCII ones, the next
  line U+0085 and the no-break space U+00A0.
\<close>

definition is_space :: "char \<Rightarrow> bool" where
  "is_space c =
     (c \<in> set [CHR 0x09, CHR 0x0A, CHR 0x0B, CHR 0x0C, CHR 0x0D,
               CHR 0x1C, CHR 0x1D, CHR 0x1E, CHR 0x1F, CHR 0x20, CHR 0x85, CHR 0xA0])"

definition strip :: "string \<Rightarrow> string" where
  "strip s = rev (dropWhile is_space (rev (dropWhile is_space s)))"

fun str_in :: "string \<Rightarrow> string \<Rightarrow> bool" where
  "str_in p [] = (p = [])"
| "str_in p (c # cs) = (prefix p (c # cs) \<or> str_in p cs)"

text \<open>
  The apostrophe and the line feed, for the messages that contain them, and the double
  quote of JSON texts.
\<close>

definition apos :: string where
  "apos = [CHR 0x27]"

definition nl :: string where
  "nl = [CHR 0x0A]"

definition dq :: string where
  "dq = [CHR 0x22]"

section \<open>Output, exceptions and the external services\<close>

text \<open>
  What a run writes, in order: a line printed with \<open>print\<close>, the prompt written by
  \<open>input\<close>, and a record handed to the logger (the third program logs at level INFO,
  so every record is emitted).
\<close>

datatype level = INFO | WARNING | ERROR

datatype event = Print string | Prompt string | Log level string

text \<open>
  The exceptions that occur. Each carries the text \<open>str(e)\<close> gives. Every one but
  \<open>KeyboardInterrupt\<close> is a subclass of \<open>Exception\<close>; \<open>JSONDecodeError\<close>,
  \<open>DisambiguationError\<close> (with its \<open>options\<close>) and \<open>PageError\<close> are the library
  exceptions the third program names, \<open>OtherException\<close> is any other subclass of
  \<open>Exception\<close> a library call may raise.
\<close>

datatype exn =
    ConfigError string
  | APIError string
  | JSONDecodeError string
  | DisambiguationError string "string list"
  | PageError string
  | EOFError string
  | IndexError string
  | TypeError string
  | KeyError string
  | OtherException string
  | KeyboardInterrupt

fun str_exn :: "exn \<Rightarrow> string" where
  "str_exn (ConfigError m) = m"
| "str_exn (APIError m) = m"
| "str_exn (JSONDecodeError m) = m"
| "str_exn (DisambiguationError m opts) = m"
| "str_exn (PageError m) = m"
| "str_exn (EOFError m) = m"
| "str_exn (IndexError m) = m"
| "str_exn (TypeError m) = m"
| "str_exn (KeyError m) = m"
| "str_exn (OtherException m) = m"
| "str_exn KeyboardInterrupt = []"

fun is_Exception :: "exn \<Rightarrow> bool" where
  "is_Exception KeyboardInterrupt = False"
| "is_Exception e = True"

text \<open>
  The page object of \<open>wikipediaapi\<close>: what \<open>page.exists()\<close> and \<open>page.summary\<close>
  give. The summary of a page that does not exist is never read.
\<close>

record wiki_page =
  page_exists :: bool
  page_summary :: string

text \<open>
  The external services of the two hand-written programs, as the answers they give in
  a run: \<open>wikipedia.summary(task, sentences=2)\<close>, \<open>wikipediaapi\<close>'s \<open>page(task)\<close>
  with the two reads of the page, and \<open>list(search(task, num=1, stop=1, pause=2))\<close>.
  Each call returns or raises, and a service gives the same answer to the same query
  throughout a run. Creating the agents is taken to succeed.
\<close>

record services =
  wikipedia_summary :: "string \<Rightarrow> exn + string"
  wikipediaapi_page :: "string \<Rightarrow> exn + wiki_page"
  googlesearch :: "string \<Rightarrow> exn + string list"

section \<open>The agents of the hand-written programs\<close>

text \<open>
  Every method returns the lines it prints together with its result; a method that can
  raise returns \<open>Inl\<close> of the exception in place of the result.
\<close>

definition initialize_project :: "string list \<Rightarrow> event list \<times> string list" where
  "initialize_project tasks =
     ([Print ''Project Manager: Initializing project and assigning tasks.''], tasks)"

definition review_feedback :: "string \<Rightarrow> event list \<times> string" where
  "review_feedback feedback =
     ([Print (''Project Manager: Reviewing client feedback: '' @ feedback)],
      ''Adjust tasks if needed.'')"

text \<open>\<open>DeveloperAgent.write_code\<close> of the program with the Google fallback.\<close>

definition write_code_google :: "services \<Rightarrow> string \<Rightarrow> event list \<times> (exn + string)" where
  "write_code_google sv task =
     (let out = [Print (''Developer: Processing task: '' @ task)] in
      if str_in ''what'' (lower task) \<or> str_in ''who'' (lower task)
         \<or> str_in ''net worth'' (lower task)
      then
        (let out = out @
           [Print ''Developer: Detected a question. Fetching answer from Wikipedia or Google.'']
         in
         case wikipedia_summary sv task of
           Inr answer \<Rightarrow>
             (out @ [Print (''Developer: Wikipedia summary: '' @ answer)], Inr answer)
         | Inl _ \<Rightarrow>
             (let out = out @
                [Print ''Developer: Falling back to wikipedia-api for detailed search.'']
              in
              case wikipediaapi_page sv task of
                Inl e \<Rightarrow> (out, Inl e)
              | Inr page \<Rightarrow>
                  if page_exists page then (out, Inr (take 500 (page_summary page)))
                  else
                    (let out = out @
                       [Print ''Developer: No Wikipedia page found. Trying Google Search.'']
                     in
                     case googlesearch sv task of
                       Inl e \<Rightarrow> (out, Inl e)
                     | Inr google_results \<Rightarrow>
                         (case google_results of
                            r # _ \<Rightarrow> (out, Inr (''Google Search result: '' @ r))
                          | [] \<Rightarrow>
                              (out,
                               Inr ''Developer: No relevant information found on Wikipedia or Google.'')))))
      else
        (out @ [Print (''Developer: Writing code for task: '' @ task)],
         Inr (''Code for '' @ task @ '' completed.'')))"

text \<open>\<open>DeveloperAgent.write_code\<close> of the program without the Google fallback.\<close>

definition write_code_wiki :: "services \<Rightarrow> string \<Rightarrow> event list \<times> (exn + string)" where
  "write_code_wiki sv task =
     (let out = [Print (''Developer: Processing task: '' @ task)] in
      if str_in ''what'' (lower task) \<or> str_in ''who'' (lower task)
         \<or> str_in ''net worth'' (lower task)
      then
        (let out = out @
           [Print ''Developer: Detected a question. Fetching answer from Wikipedia.'']
         in
         case wikipedia_summary sv task of
           Inr answer \<Rightarrow>
             (out @ [Print (''Developer: Wikipedia summary: '' @ answer)], Inr answer)
         | Inl _ \<Rightarrow>
             (let out = out @
                [Print ''Developer: Falling back to wikipedia-api for detailed search.'']
              in
              case wikipediaapi_page sv task of
                Inl e \<Rightarrow> (out, Inl e)
              | Inr page \<Rightarrow>
                  if page_exists page then (out, Inr (take 500 (page_summary page)))
                  else (out, Inr ''Developer: No Wikipedia page found for this query.'')))
      else
        (out @ [Print (''Developer: Writing code for task: '' @ task)],
         Inr (''Code for '' @ task @ '' completed.'')))"

definition test_code :: "string \<Rightarrow> event list \<times> string" where
  "test_code code =
     ([Print (''QA Agent: Testing code or answer: '' @ code)], ''Code or answer passed QA.'')"

definition deploy_code :: "string \<Rightarrow> event list \<times> string" where
  "deploy_code code =
     ([Print (''DevOps Agent: Deploying code or answer: '' @ code)],
      ''Code or answer deployed successfully.'')"

definition send_update :: "string \<Rightarrow> event list \<times> string" where
  "send_update message =
     ([Print (''Client Communication Agent: Sending update to client: '' @ message)],
      ''Client notified.'')"

definition get_feedback :: string where
  "get_feedback = ''Client feedback: Everything looks good!''"

text \<open>
  The specification's wording of the classifier: the lowercased task has \<open>what\<close>,
  \<open>who\<close> or \<open>net worth\<close> as a substring.
\<close>

definition mentions_keyword :: "string \<Rightarrow> bool" where
  "mentions_keyword task =
     ((\<exists>a b. lower task = a @ ''what'' @ b)
      \<or> (\<exists>a b. lower task = a @ ''who'' @ b)
      \<or> (\<exists>a b. lower task = a @ ''net worth'' @ b))"

section \<open>The flow of the hand-written programs\<close>

text \<open>
  Standard input is the list of what \<open>input\<close> meets, in order: a line (without its
  line feed) or an interrupt from the keyboard. At the end of the list \<open>input\<close>
  raises \<open>EOFError\<close>.
\<close>

datatype stdin_event = Line string | CtrlC

text \<open>
  The loop that collects the tasks (\<open>while True: task = input("> ") ...\<close>), with the
  tasks collected so far. Neither hand-written program catches an exception of
  \<open>input\<close>.
\<close>

fun read_tasks :: "stdin_event list \<Rightarrow> string list \<Rightarrow> event list \<times> (exn + string list)" where
  "read_tasks [] tasks = ([Prompt ''> ''], Inl (EOFError ''EOF when reading a line''))"
| "read_tasks (CtrlC # rest) tasks = ([Prompt ''> ''], Inl KeyboardInterrupt)"
| "read_tasks (Line task # rest) tasks =
     (if lower task = ''done'' then ([Prompt ''> ''], Inr tasks)
      else (case read_tasks rest (tasks @ [task]) of
              (out, r) \<Rightarrow> (Prompt ''> '' # out, r)))"

text \<open>
  The loop over the assigned tasks (steps 3 to 6 of \<open>crewai_flow\<close>). The developer's
  \<open>write_code\<close> is the one method in which the two programs differ, so it is an
  argument; an exception it raises ends the run.
\<close>

fun execute_tasks ::
  "(string \<Rightarrow> event list \<times> (exn + string)) \<Rightarrow> string list \<Rightarrow> event list \<times> (exn + unit)" where
  "execute_tasks write_code [] = ([], Inr ())"
| "execute_tasks write_code (task # rest) =
     (let out = [Print (nl @ ''Processing task: '' @ task)] in
      case write_code task of
        (out1, Inl e) \<Rightarrow> (out @ out1, Inl e)
      | (out1, Inr result) \<Rightarrow>
          (case test_code result of
             (out2, qa_result) \<Rightarrow>
               (let out3 =
                  (if str_in ''passed'' qa_result
                   then
                     (case deploy_code result of
                        (out_deploy, deployment_result) \<Rightarrow>
                          out_deploy @ [Print deployment_result]
                          @ fst (send_update (''Task completed: '' @ task)))
                   else [Print ''QA failed. Code or answer not deployed.''])
                in
                case execute_tasks write_code rest of
                  (out4, r) \<Rightarrow> (out @ out1 @ out2 @ out3 @ out4, r))))"

definition crewai_flow ::
  "(string \<Rightarrow> event list \<times> (exn + string)) \<Rightarrow> stdin_event list \<Rightarrow> event list \<times> (exn + unit)" where
  "crewai_flow write_code stdin =
     (let out = [Print ''Enter the tasks for the project (type 'done' to finish):''] in
      case read_tasks stdin [] of
        (out1, Inl e) \<Rightarrow> (out @ out1, Inl e)
      | (out1, Inr tasks) \<Rightarrow>
          if tasks = [] then (out @ out1 @ [Print ''No tasks provided. Exiting.''], Inr ())
          else
            (case initialize_project tasks of
               (out2, assigned_tasks) \<Rightarrow>
                 (case execute_tasks write_code assigned_tasks of
                    (out3, Inl e) \<Rightarrow> (out @ out1 @ out2 @ out3, Inl e)
                  | (out3, Inr u) \<Rightarrow>
                      (let feedback = get_feedback in
                       (out @ out1 @ out2 @ out3 @ fst (review_feedback feedback), Inr ())))))"

definition crewai_flow_google :: "services \<Rightarrow> stdin_event list \<Rightarrow> event list \<times> (exn + unit)" where
  "crewai_flow_google sv = crewai_flow (write_code_google sv)"

definition crewai_flow_wiki :: "services \<Rightarrow> stdin_event list \<Rightarrow> event list \<times> (exn + unit)" where
  "crewai_flow_wiki sv = crewai_flow (write_code_wiki sv)"

text \<open>
  The tasks whose processing a run announces, in the order of the announcements
  (the lines \<open>Processing task: ...\<close> that \<open>crewai_flow\<close> prints after a line feed).
\<close>

fun processed :: "event list \<Rightarrow> string list" where
  "processed [] = []"
| "processed (Print s # es) =
     (if prefix (nl @ ''Processing task: '') s
      then drop (length (nl @ ''Processing task: '')) s # processed es
      else processed es)"
| "processed (e # es) = processed es"

text \<open>
  What the processing of one task writes, in the words of the specification: the
  announcement, the lines of the developer and, when the developer returns a result, the
  line of the check, the line of the deployment, its confirmation and the update sent to
  the client.
\<close>

definition task_report :: "(string \<Rightarrow> event list \<times> (exn + string)) \<Rightarrow> string \<Rightarrow> event list" where
  "task_report write_code task =
     [Print (nl @ ''Processing task: '' @ task)] @ fst (write_code task)
     @ (case snd (write_code task) of
          Inl e \<Rightarrow> []
        | Inr result \<Rightarrow>
            [Print (''QA Agent: Testing code or answer: '' @ result),
             Print (''DevOps Agent: Deploying code or answer: '' @ result),
             Print ''Code or answer deployed successfully.'',
             Print (''Client Communication Agent: Sending update to client: ''
                    @ ''Task completed: '' @ task)])"

section \<open>The third program: configuration and services\<close>

text \<open>
  A value that \<open>json.loads\<close> returns. An object holds the items of the dictionary
  (its keys are distinct); the payload of a float (its bit pattern) is never inspected.
\<close>

datatype json =
    JNull
  | JBool bool
  | JInt int
  | JFloat int
  | JStr string
  | JArr "json list"
  | JObj "(string \<times> json) list"

text \<open>
  A path of the file system: no file, a file that \<open>open\<close> or \<open>read\<close> fails on (with
  the text of the \<open>OSError\<close>), or a file with its text.
\<close>

datatype file_state = Missing | Unreadable string | Content string

datatype google_service = GoogleService json

text \<open>
  What the third program reaches outside itself: the file system, \<open>json.loads\<close>,
  \<open>googleapiclient\<close>'s \<open>build\<close> and the \<open>execute\<close> of a search request (with the
  \<open>cx\<close> it is given, the environment variable \<open>GOOGLE_CSE_ID\<close>),
  \<open>wikipedia.summary(query, sentences=2)\<close>, the chat completion (from the text of the
  user message to the text of the first choice), and the framework's constructors
  \<open>Agent\<close> (by role) and \<open>Crew\<close> and its \<open>kickoff\<close> (from the question to the text of
  the result). Each call returns or raises, and gives the same answer to the same
  arguments throughout a run. What the crew runs inside \<open>kickoff\<close> is the framework's
  business: its outcome is the text of the result or an exception.
\<close>

record apis =
  file_at :: "string \<Rightarrow> file_state"
  json_loads :: "string \<Rightarrow> exn + json"
  build :: "json \<Rightarrow> exn + google_service"
  env_google_cse_id :: "string option"
  cse_list_execute :: "google_service \<Rightarrow> string \<Rightarrow> string option \<Rightarrow> exn + (string \<times> json) list"
  summary :: "string \<Rightarrow> exn + string"
  chat_completion_create :: "string \<Rightarrow> exn + string"
  new_agent :: "string \<Rightarrow> exn + unit"
  new_crew :: "exn + unit"
  kickoff :: "string \<Rightarrow> exn + string"

fun type_name :: "json \<Rightarrow> string" where
  "type_name JNull = ''NoneType''"
| "type_name (JBool b) = ''bool''"
| "type_name (JInt i) = ''int''"
| "type_name (JFloat f) = ''float''"
| "type_name (JStr s) = ''str''"
| "type_name (JArr xs) = ''list''"
| "type_name (JObj kvs) = ''dict''"

text \<open>
  The expression \<open>key in config\<close>: a key of a dictionary, an element of a list, a
  substring of a string, and a \<open>TypeError\<close> on anything else.
\<close>

fun key_in :: "string \<Rightarrow> json \<Rightarrow> exn + bool" where
  "key_in key (JObj kvs) = Inr (key \<in> set (map fst kvs))"
| "key_in key (JArr xs) = Inr (JStr key \<in> set xs)"
| "key_in key (JStr s) = Inr (str_in key s)"
| "key_in key v =
     Inl (TypeError (''argument of type '' @ apos @ type_name v @ apos @ '' is not iterable''))"

text \<open>The expression \<open>config[key]\<close> with a string key (messages of CPython 3.11).\<close>

fun subscript :: "json \<Rightarrow> string \<Rightarrow> exn + json" where
  "subscript (JObj kvs) key =
     (case map_of kvs key of
        None \<Rightarrow> Inl (KeyError (apos @ key @ apos))
      | Some v \<Rightarrow> Inr v)"
| "subscript (JArr xs) key =
     Inl (TypeError ''list indices must be integers or slices, not str'')"
| "subscript (JStr s) key =
     Inl (TypeError (''string indices must be integers, not '' @ apos @ ''str'' @ apos))"
| "subscript v key =
     Inl (TypeError (apos @ type_name v @ apos @ '' object is not subscriptable''))"

definition required_keys :: "string list" where
  "required_keys = [''OPENAI_API_KEY'', ''GOOGLE_API_KEY'', ''GOOGLE_CSE_ID'']"

text \<open>The loop of \<open>load_config\<close> over the required keys.\<close>

fun validate_keys :: "json \<Rightarrow> string list \<Rightarrow> exn + json" where
  "validate_keys config [] = Inr config"
| "validate_keys config (key # keys) =
     (case key_in key config of
        Inl e \<Rightarrow> Inl e
      | Inr present \<Rightarrow>
          if \<not> present
          then Inl (ConfigError (''Missing required key '' @ apos @ key @ apos
                                  @ '' in configuration file.''))
          else validate_keys config keys)"

text \<open>The body of the \<open>try\<close> of \<open>load_config\<close>.\<close>

definition load_config_try :: "apis \<Rightarrow> string \<Rightarrow> exn + json" where
  "load_config_try env config_file =
     (case file_at env config_file of
        Missing \<Rightarrow>
          Inl (ConfigError (''Configuration file '' @ apos @ config_file @ apos
                              @ '' not found. Please create it.''))
      | Unreadable m \<Rightarrow> Inl (OtherException m)
      | Content text \<Rightarrow>
          (let content = strip text in
           if content = []
           then Inl (ConfigError (''Configuration file '' @ apos @ config_file @ apos
                                    @ '' is empty. Please add the required keys.''))
           else
             (case json_loads env content of
                Inl e \<Rightarrow> Inl e
              | Inr config \<Rightarrow> validate_keys config required_keys)))"

text \<open>
  \<open>load_config\<close>: the body under its two handlers, \<open>except json.JSONDecodeError\<close>
  first and \<open>except Exception\<close> second. A \<open>ConfigError\<close> raised in the body is an
  \<open>Exception\<close>, so the second handler wraps it.
\<close>

definition load_config :: "apis \<Rightarrow> string \<Rightarrow> exn + json" where
  "load_config env config_file =
     (case load_config_try env config_file of
        Inr config \<Rightarrow> Inr config
      | Inl (JSONDecodeError m) \<Rightarrow>
          Inl (ConfigError (''Invalid JSON in configuration file: '' @ m))
      | Inl e \<Rightarrow>
          if is_Exception e
          then Inl (ConfigError (''Failed to load configuration: '' @ str_exn e))
          else Inl e)"

definition initialize_apis_try :: "apis \<Rightarrow> json \<Rightarrow> event list \<times> (exn + google_service)" where
  "initialize_apis_try env config =
     (case subscript config ''OPENAI_API_KEY'' of
        Inl e \<Rightarrow> ([], Inl e)
      | Inr openai_api_key \<Rightarrow>
          (case subscript config ''GOOGLE_API_KEY'' of
             Inl e \<Rightarrow> ([], Inl e)
           | Inr google_api_key \<Rightarrow>
               (case subscript config ''GOOGLE_CSE_ID'' of
                  Inl e \<Rightarrow> ([], Inl e)
                | Inr google_cse_id \<Rightarrow>
                    (case build env google_api_key of
                       Inl e \<Rightarrow> ([], Inl e)
                     | Inr google_service \<Rightarrow>
                         ([Log INFO ''APIs initialized successfully.''],
                          Inr google_service)))))"

definition initialize_apis :: "apis \<Rightarrow> json \<Rightarrow> event list \<times> (exn + google_service)" where
  "initialize_apis env config =
     (case initialize_apis_try env config of
        (out, Inr google_service) \<Rightarrow> (out, Inr google_service)
      | (out, Inl e) \<Rightarrow>
          if is_Exception e
          then (out, Inl (APIError (''Failed to initialize APIs: '' @ str_exn e)))
          else (out, Inl e))"

section \<open>The third program: helpers, main loop and entry point\<close>




definition create_researcher_agent :: "apis \<Rightarrow> exn + unit" where
  "create_researcher_agent env = new_agent env ''Researcher''"

definition create_analyzer_agent :: "apis \<Rightarrow> exn + unit" where
  "create_analyzer_agent env = new_agent env ''Analyzer''"

definition create_crew :: "apis \<Rightarrow> exn + unit" where
  "create_crew env = new_crew env"

text \<open>
  The loop of \<open>main\<close>, with what the process has written so far. The \<open>try\<close> of its
  body catches \<open>KeyboardInterrupt\<close> (and leaves the loop) and \<open>Exception\<close> (and
  goes on); the \<open>EOFError\<close> of \<open>input\<close> at the end of the input is an \<open>Exception\<close>,
  so at the end of the input the loop goes round for ever. The result is \<open>None\<close> when
  the loop does not end.
\<close>

partial_function (option) main_loop ::
  "apis \<Rightarrow> stdin_event list \<Rightarrow> event list \<Rightarrow> (event list \<times> (exn + unit)) option" where
  "main_loop env stdin out =
     (let out = out @ [Prompt (nl @ ''Ask a question (or type 'exit' to quit): '')] in
      case stdin of
        [] \<Rightarrow>
          main_loop env []
            (out @ [Log ERROR (''An error occurred: '' @ ''EOF when reading a line'')])
      | CtrlC # rest \<Rightarrow> Some (out @ [Log INFO (nl @ ''Exiting the program.'')], Inr ())
      | Line text # rest \<Rightarrow>
          (let question = strip text in
           if lower question = ''exit''
           then Some (out @ [Log INFO ''Exiting the program.''], Inr ())
           else if lower question = ''help''
           then main_loop env rest
                  (out @ [Print (nl @ ''Help:''),
                          Print ''1. Type your question to get an answer.'',
                          Print ''2. Type 'exit' to quit the program.''])
           else if question = []
           then main_loop env rest (out @ [Log WARNING ''Please enter a valid question.''])
           else
             (let out = out @ [Log INFO (''Processing question: '' @ question)] in
              case kickoff env question of
                Inr results \<Rightarrow>
                  main_loop env rest (out @ [Print (nl @ ''Answer: '' @ results @ nl)])
              | Inl e \<Rightarrow>
                  if e = KeyboardInterrupt
                  then Some (out @ [Log INFO (nl @ ''Exiting the program.'')], Inr ())
                  else if is_Exception e
                  then main_loop env rest
                         (out @ [Log ERROR (''An error occurred: '' @ str_exn e)])
                  else Some (out, Inl e))))"

declare main_loop.simps [code]

definition main :: "apis \<Rightarrow> stdin_event list \<Rightarrow> event list \<Rightarrow> (event list \<times> (exn + unit)) option" where
  "main env stdin out =
     main_loop env stdin
       (out @ [Log INFO
          ''Starting CrewAI flow. Type 'exit' to quit or 'help' for instructions.''])"

text \<open>
  The handlers of the entry point: \<open>except ConfigError\<close>, \<open>except APIError\<close> and
  \<open>except Exception\<close>, each of which logs and lets the process end.
\<close>

definition handlers :: "event list \<Rightarrow> exn \<Rightarrow> event list \<times> (exn + unit)" where
  "handlers out e =
     (case e of
        ConfigError m \<Rightarrow> (out @ [Log ERROR m], Inr ())
      | APIError m \<Rightarrow> (out @ [Log ERROR m], Inr ())
      | _ \<Rightarrow>
          if is_Exception e
          then (out @ [Log ERROR (''An unexpected error occurred: '' @ str_exn e)], Inr ())
          else (out, Inl e))"

text \<open>
  The block under \<open>if __name__ == "__main__"\<close>. Setting up the logger writes nothing.
\<close>

definition entry_point :: "apis \<Rightarrow> stdin_event list \<Rightarrow> (event list \<times> (exn + unit)) option" where
  "entry_point env stdin =
     (case load_config env ''config.json'' of
        Inl e \<Rightarrow> Some (handlers [] e)
      | Inr config \<Rightarrow>
          (case initialize_apis env config of
             (out, Inl e) \<Rightarrow> Some (handlers out e)
           | (out, Inr google_service) \<Rightarrow>
               (case create_researcher_agent env of
                  Inl e \<Rightarrow> Some (handlers out e)
                | Inr researcher \<Rightarrow>
                    (case create_analyzer_agent env of
                       Inl e \<Rightarrow> Some (handlers out e)
                     | Inr analyzer \<Rightarrow>
                         (case create_crew env of
                            Inl e \<Rightarrow> Some (handlers out e)
                          | Inr crew \<Rightarrow>
                              (case main env stdin out of
                                 None \<Rightarrow> None
                               | Some (out', Inl e) \<Rightarrow> Some (handlers out' e)
                               | Some (out', Inr u) \<Rightarrow> Some (out', Inr ())))))))"

section \<open>Sample environments\<close>

text \<open>Services that give the same three answers to every query, and a network that is down.\<close>

definition answering ::
  "(exn + string) \<Rightarrow> (exn + wiki_page) \<Rightarrow> (exn + string list) \<Rightarrow> services" where
  "answering s p g =
     \<lparr>wikipedia_summary = (\<lambda>q. s), wikipediaapi_page = (\<lambda>q. p), googlesearch = (\<lambda>q. g)\<rparr>"

definition offline :: services where
  "offline =
     answering (Inl (OtherException ''offline'')) (Inl (OtherException ''offline''))
       (Inl (OtherException ''offline''))"

text \<open>A page whose summary is 501 characters long.\<close>

definition long_page :: wiki_page where
  "long_page = \<lparr>page_exists = True, page_summary = replicate 501 (CHR ''a'')\<rparr>"

text \<open>
  Two texts of a configuration file, one with the three keys and one with the first
  only, and what \<open>json.loads\<close> returns for them; the text \<open>not json\<close> makes it raise,
  and the sample parser answers every other text as it answers that one.
\<close>

definition config_text :: string where
  "config_text =
     ''{'' @ dq @ ''OPENAI_API_KEY'' @ dq @ '': '' @ dq @ ''sk-1'' @ dq @ '', ''
     @ dq @ ''GOOGLE_API_KEY'' @ dq @ '': '' @ dq @ ''g-1'' @ dq @ '', ''
     @ dq @ ''GOOGLE_CSE_ID'' @ dq @ '': '' @ dq @ ''cx-1'' @ dq @ ''}''"

definition sample_config :: json where
  "sample_config =
     JObj [(''OPENAI_API_KEY'', JStr ''sk-1''), (''GOOGLE_API_KEY'', JStr ''g-1''),
           (''GOOGLE_CSE_ID'', JStr ''cx-1'')]"

definition partial_text :: string where
  "partial_text = ''{'' @ dq @ ''OPENAI_API_KEY'' @ dq @ '': '' @ dq @ ''sk-1'' @ dq @ ''}''"

definition sample_json_loads :: "string \<Rightarrow> exn + json" where
  "sample_json_loads s =
     (if s = config_text then Inr sample_config
      else if s = partial_text then Inr (JObj [(''OPENAI_API_KEY'', JStr ''sk-1'')])
      else Inl (JSONDecodeError ''Expecting value: line 1 column 1 (char 0)''))"

text \<open>
  An installation in working order: the configuration file with the three keys, services
  that answer, and a crew that answers every question.
\<close>

definition sample_apis :: apis where
  "sample_apis =
     \<lparr>file_at = (\<lambda>path. if path = ''config.json'' then Content config_text else Missing),
      json_loads = sample_json_loads,
      build = (\<lambda>key. Inr (GoogleService key)),
      env_google_cse_id = None,
      cse_list_execute = (\<lambda>service query cx. Inr []),
      summary = (\<lambda>query. Inl (PageError ''no match'')),
      chat_completion_create = (\<lambda>message. Inr ''I do not know.''),
      new_agent = (\<lambda>role. Inr ()),
      new_crew = Inr (),
      kickoff = (\<lambda>question. Inr (''Answer to '' @ question))\<rparr>"



section \<open>Substring search\<close>

lemma str_in_iff: "str_in p s \<longleftrightarrow> (\<exists>a b. s = a @ p @ b)"
proof (induction s)
  case Nil
  show ?case by auto
next
  case (Cons c cs)
  have "(\<exists>a b. c # cs = a @ p @ b) \<longleftrightarrow> prefix p (c # cs) \<or> (\<exists>a b. cs = a @ p @ b)"
  proof
    assume "\<exists>a b. c # cs = a @ p @ b"
    then obtain a b where ab: "c # cs = a @ p @ b" by blast
    show "prefix p (c # cs) \<or> (\<exists>a b. cs = a @ p @ b)"
    proof (cases a)
      case Nil
      with ab show ?thesis by (simp add: prefix_def)
    next
      case (Cons x a')
      with ab have "cs = a' @ p @ b" by simp
      then show ?thesis by blast
    qed
  next
    assume "prefix p (c # cs) \<or> (\<exists>a b. cs = a @ p @ b)"
    then show "\<exists>a b. c # cs = a @ p @ b"
    proof
      assume "prefix p (c # cs)"
      then obtain b where "c # cs = p @ b" by (auto simp: prefix_def)
      then have "c # cs = [] @ p @ b" by simp
      then show ?thesis by blast
    next
      assume "\<exists>a b. cs = a @ p @ b"
      then obtain a b where "cs = a @ p @ b" by blast
      then have "c # cs = (c # a) @ p @ b" by simp
      then show ?thesis by blast
    qed
  qed
  with Cons.IH show ?case by simp
qed

lemma mentions_keyword_code:
  "mentions_keyword task \<longleftrightarrow>
     str_in ''what'' (lower task) \<or> str_in ''who'' (lower task)
     \<or> str_in ''net worth'' (lower task)"
  unfolding mentions_keyword_def str_in_iff ..

section \<open>Sample evaluations\<close>

lemma lower_samples:
  "lower ''done'' = ''done''"
  "lower ''DONE'' = ''done''"
  "lower ''Done'' = ''done''"
  "lower ''exit'' = ''exit''"
  "lower ''EXIT'' = ''exit''"
  "lower ''Exit'' = ''exit''"
  "lower ''help'' = ''help''"
  "lower [] = []"
  "lower ''Set up the repository'' = ''set up the repository''"
  "lower ''Write a function to sort a list'' = ''write a function to sort a list''"
  "lower ''Who is Ada Lovelace'' = ''who is ada lovelace''"
  "lower ''Deploy the API'' = ''deploy the api''"
  "lower ''next task'' = ''next task''"
  "lower ''later'' = ''later''"
  by code_simp+

lemma strip_samples:
  "strip ''exit'' = ''exit''"
  "strip '' EXIT '' = ''EXIT''"
  "strip '' Exit '' = ''Exit''"
  "strip [CHR 0xA0, CHR ''e'', CHR ''x'', CHR ''i'', CHR ''t''] = ''exit''"
  "strip ''help'' = ''help''"
  "strip [] = []"
  "strip ''   '' = []"
  "strip [CHR 0xA0] = []"
  "strip ''Who is Ada Lovelace'' = ''Who is Ada Lovelace''"
  "strip ''not json'' = ''not json''"
  "strip config_text = config_text"
  "strip partial_text = partial_text"
  by code_simp+

lemma keyword_samples:
  "(str_in ''what'' (lower ''Who is Ada Lovelace'') \<or> str_in ''who'' (lower ''Who is Ada Lovelace'')
     \<or> str_in ''net worth'' (lower ''Who is Ada Lovelace'')) = True"
  "(str_in ''what'' (lower ''Set up the repository'') \<or> str_in ''who'' (lower ''Set up the repository'')
     \<or> str_in ''net worth'' (lower ''Set up the repository'')) = False"
  "(str_in ''what'' (lower ''Write a function to sort a list'')
     \<or> str_in ''who'' (lower ''Write a function to sort a list'')
     \<or> str_in ''net worth'' (lower ''Write a function to sort a list'')) = False"
  "(str_in ''what'' (lower ''Deploy the API'') \<or> str_in ''who'' (lower ''Deploy the API'')
     \<or> str_in ''net worth'' (lower ''Deploy the API'')) = False"
  "(str_in ''what'' (lower ''next task'') \<or> str_in ''who'' (lower ''next task'')
     \<or> str_in ''net worth'' (lower ''next task'')) = False"
  by code_simp+

lemma json_samples:
  "sample_json_loads config_text = Inr sample_config"
  "sample_json_loads partial_text = Inr (JObj [(''OPENAI_API_KEY'', JStr ''sk-1'')])"
  "sample_json_loads ''not json''
     = Inl (JSONDecodeError ''Expecting value: line 1 column 1 (char 0)'')"
  by code_simp+

section \<open>The classifier of the developer agent\<close>

text \<open>
  C1. For every task, \<open>write_code\<close> takes the question branch (it announces the lookup)
  exactly when the lowercased task contains \<open>what\<close>, \<open>who\<close> or \<open>net worth\<close>, and the
  task branch (it announces that it writes code for the task) exactly when it does not.
  This holds for both hand-written programs and whatever the services answer.
\<close>

theorem write_code_selects_branch:
  "(Print ''Developer: Detected a question. Fetching answer from Wikipedia or Google.''
      \<in> set (fst (write_code_google sv task)) \<longleftrightarrow> mentions_keyword task)
   \<and> (Print (''Developer: Writing code for task: '' @ task)
      \<in> set (fst (write_code_google sv task)) \<longleftrightarrow> \<not> mentions_keyword task)
   \<and> (Print ''Developer: Detected a question. Fetching answer from Wikipedia.''
      \<in> set (fst (write_code_wiki sv task)) \<longleftrightarrow> mentions_keyword task)
   \<and> (Print (''Developer: Writing code for task: '' @ task)
      \<in> set (fst (write_code_wiki sv task)) \<longleftrightarrow> \<not> mentions_keyword task)"
  by (auto simp: write_code_google_def write_code_wiki_def mentions_keyword_code Let_def
           split: sum.splits list.splits)

section \<open>The results of the developer agent\<close>

text \<open>
  C2. On the task branch \<open>write_code\<close> returns \<open>Code for\<close>, the task as it was
  entered and \<open>completed.\<close>, whatever the services answer; for the task
  \<open>Write a function to sort a list\<close> the result is
  \<open>Code for Write a function to sort a list completed.\<close>
\<close>

theorem write_code_task_template:
  "(\<not> mentions_keyword task \<longrightarrow>
      snd (write_code_google sv task) = Inr (''Code for '' @ task @ '' completed.'')
      \<and> snd (write_code_wiki sv task) = Inr (''Code for '' @ task @ '' completed.''))
   \<and> snd (write_code_google sv ''Write a function to sort a list'')
       = Inr ''Code for Write a function to sort a list completed.''
   \<and> snd (write_code_wiki sv ''Write a function to sort a list'')
       = Inr ''Code for Write a function to sort a list completed.''"
  by (simp add: write_code_google_def write_code_wiki_def mentions_keyword_code keyword_samples)

theorem write_code_task_template_witness:
  "\<not> mentions_keyword ''Deploy the API''
   \<and> snd (write_code_google offline ''Deploy the API'') = Inr ''Code for Deploy the API completed.''
   \<and> snd (write_code_wiki offline ''Deploy the API'') = Inr ''Code for Deploy the API completed.''"
proof -
  have h: "\<not> mentions_keyword ''Deploy the API''"
    by (simp add: mentions_keyword_code keyword_samples)
  with write_code_task_template [of "''Deploy the API''" offline] show ?thesis by simp
qed

text \<open>
  C6, as amended. On the question branch the result is the first string along the
  chain: the summary of the simple call when it returns; when it raises and the page
  call returns a page that exists, the first 500 characters of the page's summary (not
  the whole summary); when the page does not exist, the fixed failure string of the
  program without the Google fallback, and in the other program the first search result
  after \<open>Google Search result: \<close>, or its fixed failure string when the search returns
  nothing.
\<close>

theorem write_code_question_chain:
  assumes "mentions_keyword task"
  shows "(wikipedia_summary sv task = Inr answer \<longrightarrow>
            snd (write_code_google sv task) = Inr answer
            \<and> snd (write_code_wiki sv task) = Inr answer)
   \<and> (wikipedia_summary sv task = Inl e \<and> wikipediaapi_page sv task = Inr page \<and> page_exists page \<longrightarrow>
            snd (write_code_google sv task) = Inr (take 500 (page_summary page))
            \<and> snd (write_code_wiki sv task) = Inr (take 500 (page_summary page)))
   \<and> (wikipedia_summary sv task = Inl e \<and> wikipediaapi_page sv task = Inr page \<and> \<not> page_exists page \<longrightarrow>
            snd (write_code_wiki sv task) = Inr ''Developer: No Wikipedia page found for this query.'')
   \<and> (wikipedia_summary sv task = Inl e \<and> wikipediaapi_page sv task = Inr page \<and> \<not> page_exists page
        \<and> googlesearch sv task = Inr (r # rs) \<longrightarrow>
            snd (write_code_google sv task) = Inr (''Google Search result: '' @ r))
   \<and> (wikipedia_summary sv task = Inl e \<and> wikipediaapi_page sv task = Inr page \<and> \<not> page_exists page
        \<and> googlesearch sv task = Inr [] \<longrightarrow>
            snd (write_code_google sv task)
              = Inr ''Developer: No relevant information found on Wikipedia or Google.'')"
  using assms
  by (simp add: write_code_google_def write_code_wiki_def mentions_keyword_code)

theorem write_code_question_chain_witness:
  "snd (write_code_google
          (answering (Inr ''Ada Lovelace was a mathematician.'') (Inl (OtherException ''offline''))
             (Inl (OtherException ''offline'')))
          ''Who is Ada Lovelace'')
     = Inr ''Ada Lovelace was a mathematician.''
   \<and> snd (write_code_wiki
          (answering (Inl (PageError ''no match''))
             (Inr \<lparr>page_exists = True, page_summary = ''Augusta Ada King''\<rparr>)
             (Inl (OtherException ''offline'')))
          ''Who is Ada Lovelace'')
     = Inr ''Augusta Ada King''
   \<and> snd (write_code_wiki
          (answering (Inl (PageError ''no match''))
             (Inr \<lparr>page_exists = False, page_summary = []\<rparr>)
             (Inl (OtherException ''offline'')))
          ''Who is Ada Lovelace'')
     = Inr ''Developer: No Wikipedia page found for this query.''
   \<and> snd (write_code_google
          (answering (Inl (PageError ''no match''))
             (Inr \<lparr>page_exists = False, page_summary = []\<rparr>)
             (Inr [''https://example.org/ada'']))
          ''Who is Ada Lovelace'')
     = Inr ''Google Search result: https://example.org/ada''
   \<and> snd (write_code_google
          (answering (Inl (PageError ''no match''))
             (Inr \<lparr>page_exists = False, page_summary = []\<rparr>)
             (Inr []))
          ''Who is Ada Lovelace'')
     = Inr ''Developer: No relevant information found on Wikipedia or Google.''"
proof -
  have h: "mentions_keyword ''Who is Ada Lovelace''"
    by (simp add: mentions_keyword_code keyword_samples)
  note chain = write_code_question_chain [OF h]
  show ?thesis
    using
      chain [of "answering (Inr ''Ada Lovelace was a mathematician.'')
                   (Inl (OtherException ''offline'')) (Inl (OtherException ''offline''))"
                "''Ada Lovelace was a mathematician.''"]
      chain [of "answering (Inl (PageError ''no match''))
                   (Inr \<lparr>page_exists = True, page_summary = ''Augusta Ada King''\<rparr>)
                   (Inl (OtherException ''offline''))"
                _ "PageError ''no match''"
                "\<lparr>page_exists = True, page_summary = ''Augusta Ada King''\<rparr>"]
      chain [of "answering (Inl (PageError ''no match''))
                   (Inr \<lparr>page_exists = False, page_summary = []\<rparr>)
                   (Inl (OtherException ''offline''))"
                _ "PageError ''no match''"
                "\<lparr>page_exists = False, page_summary = []\<rparr>"]
      chain [of "answering (Inl (PageError ''no match''))
                   (Inr \<lparr>page_exists = False, page_summary = []\<rparr>)
                   (Inr [''https://example.org/ada''])"
                _ "PageError ''no match''"
                "\<lparr>page_exists = False, page_summary = []\<rparr>"
                "''https://example.org/ada''" "[]"]
      chain [of "answering (Inl (PageError ''no match''))
                   (Inr \<lparr>page_exists = False, page_summary = []\<rparr>)
                   (Inr [])"
                _ "PageError ''no match''"
                "\<lparr>page_exists = False, page_summary = []\<rparr>"]
    by (simp add: answering_def)
qed

text \<open>
  The claim as it was stated has the page's summary returned. A summary of 501
  characters is not what either program returns.
\<close>

theorem write_code_question_chain_counterexample:
  "mentions_keyword ''Who is Ada Lovelace''
   \<and> wikipedia_summary (answering (Inl (PageError ''no match'')) (Inr long_page) (Inr []))
        ''Who is Ada Lovelace'' = Inl (PageError ''no match'')
   \<and> wikipediaapi_page (answering (Inl (PageError ''no match'')) (Inr long_page) (Inr []))
        ''Who is Ada Lovelace'' = Inr long_page
   \<and> page_exists long_page
   \<and> snd (write_code_google (answering (Inl (PageError ''no match'')) (Inr long_page) (Inr []))
        ''Who is Ada Lovelace'') \<noteq> Inr (page_summary long_page)
   \<and> snd (write_code_wiki (answering (Inl (PageError ''no match'')) (Inr long_page) (Inr []))
        ''Who is Ada Lovelace'') \<noteq> Inr (page_summary long_page)"
  by (simp add: write_code_google_def write_code_wiki_def mentions_keyword_code answering_def
        long_page_def keyword_samples)

text \<open>
  C9. When the simple summary call raises and the page exists, \<open>write_code\<close> returns
  the first 500 characters of the page's summary, so the result of this branch is at
  most 500 characters long.
\<close>

theorem page_fallback_truncated:
  assumes "mentions_keyword task" and "wikipedia_summary sv task = Inl e"
    and "wikipediaapi_page sv task = Inr page" and "page_exists page"
  shows "snd (write_code_google sv task) = Inr (take 500 (page_summary page))
         \<and> snd (write_code_wiki sv task) = Inr (take 500 (page_summary page))
         \<and> length (take 500 (page_summary page)) \<le> 500"
  using assms
  by (simp add: write_code_google_def write_code_wiki_def mentions_keyword_code)

theorem page_fallback_truncated_witness:
  "snd (write_code_google (answering (Inl (PageError ''no match'')) (Inr long_page) (Inr []))
          ''Who is Ada Lovelace'') = Inr (replicate 500 (CHR ''a''))
   \<and> snd (write_code_wiki (answering (Inl (PageError ''no match'')) (Inr long_page) (Inr []))
          ''Who is Ada Lovelace'') = Inr (replicate 500 (CHR ''a''))
   \<and> length (replicate 500 (CHR ''a'')) \<le> (500::nat)"
proof -
  have h: "mentions_keyword ''Who is Ada Lovelace''"
    by (simp add: mentions_keyword_code keyword_samples)
  show ?thesis
    using page_fallback_truncated [OF h,
        of "answering (Inl (PageError ''no match'')) (Inr long_page) (Inr [])"
           "PageError ''no match''" long_page]
    by (simp add: answering_def long_page_def)
qed

section \<open>The flow of the hand-written programs: lemmas\<close>

lemma read_tasks_collect:
  assumes "\<forall>l \<in> set entered. lower l \<noteq> ''done''" and "lower s = ''done''"
  shows "read_tasks (map Line entered @ Line s # rest) tasks
           = (replicate (Suc (length entered)) (Prompt ''> ''), Inr (tasks @ entered))"
  using assms by (induction entered arbitrary: tasks) simp_all

lemma read_tasks_eof:
  assumes "\<forall>l \<in> set entered. lower l \<noteq> ''done''"
  shows "read_tasks (map Line entered) tasks
           = (replicate (Suc (length entered)) (Prompt ''> ''),
              Inl (EOFError ''EOF when reading a line''))"
  using assms by (induction entered arbitrary: tasks) simp_all

lemma processed_append: "processed (a @ b) = processed a @ processed b"
  by (induction a rule: processed.induct) simp_all

lemma write_code_google_events:
  "e \<in> set (fst (write_code_google sv task)) \<Longrightarrow> \<exists>m. e = Print (''Developer: '' @ m)"
  by (auto simp: write_code_google_def Let_def split: sum.splits list.splits if_splits)

lemma write_code_wiki_events:
  "e \<in> set (fst (write_code_wiki sv task)) \<Longrightarrow> \<exists>m. e = Print (''Developer: '' @ m)"
  by (auto simp: write_code_wiki_def Let_def split: sum.splits list.splits if_splits)

lemma processed_developer:
  assumes "\<And>e. e \<in> set es \<Longrightarrow> \<exists>m. e = Print (''Developer: '' @ m)"
  shows "processed es = []"
  using assms
proof (induction es)
  case Nil
  show ?case by simp
next
  case (Cons e es)
  from Cons.prems [of e] obtain m where "e = Print (''Developer: '' @ m)" by auto
  moreover have "processed es = []" using Cons by simp
  ultimately show ?case by (simp add: nl_def)
qed

lemma execute_tasks_Cons:
  "execute_tasks wc (task # rest)
    = (case snd (wc task) of
         Inl e \<Rightarrow> ([Print (nl @ ''Processing task: '' @ task)] @ fst (wc task), Inl e)
       | Inr result \<Rightarrow>
           ([Print (nl @ ''Processing task: '' @ task)] @ fst (wc task)
            @ [Print (''QA Agent: Testing code or answer: '' @ result),
               Print (''DevOps Agent: Deploying code or answer: '' @ result),
               Print ''Code or answer deployed successfully.'',
               Print (''Client Communication Agent: Sending update to client: ''
                      @ ''Task completed: '' @ task)]
            @ fst (execute_tasks wc rest),
            snd (execute_tasks wc rest)))"
  by (cases "wc task")
     (simp add: test_code_def deploy_code_def send_update_def split: prod.splits sum.splits)

declare execute_tasks.simps(2) [simp del]

lemma read_tasks_events: "e \<in> set (fst (read_tasks stdin tasks)) \<Longrightarrow> e = Prompt ''> ''"
  by (induction stdin tasks rule: read_tasks.induct) (auto split: if_splits prod.splits)

lemma execute_tasks_no_qa_failure:
  assumes "\<And>task e. e \<in> set (fst (wc task)) \<Longrightarrow> \<exists>m. e = Print (''Developer: '' @ m)"
  shows "Print ''QA failed. Code or answer not deployed.'' \<notin> set (fst (execute_tasks wc tasks))"
proof (induction tasks)
  case Nil
  show ?case by simp
next
  case (Cons task rest)
  have dev: "Print ''QA failed. Code or answer not deployed.'' \<notin> set (fst (wc task))"
    using assms [of _ task] by auto
  show ?case
  proof (cases "snd (wc task)")
    case (Inl e)
    with dev show ?thesis by (simp add: execute_tasks_Cons nl_def)
  next
    case (Inr result)
    with dev Cons.IH show ?thesis by (simp add: execute_tasks_Cons nl_def)
  qed
qed

lemma crewai_flow_no_qa_failure:
  assumes "\<And>task e. e \<in> set (fst (wc task)) \<Longrightarrow> \<exists>m. e = Print (''Developer: '' @ m)"
  shows "Print ''QA failed. Code or answer not deployed.'' \<notin> set (fst (crewai_flow wc stdin))"
proof -
  have r: "Print ''QA failed. Code or answer not deployed.'' \<notin> set (fst (read_tasks stdin []))"
    using read_tasks_events [of _ stdin "[]"] by auto
  have x: "\<And>tasks. Print ''QA failed. Code or answer not deployed.''
             \<notin> set (fst (execute_tasks wc tasks))"
    using execute_tasks_no_qa_failure [of wc] assms by blast
  show ?thesis
  proof (cases "read_tasks stdin []")
    case (Pair out1 r1)
    with r have o1: "Print ''QA failed. Code or answer not deployed.'' \<notin> set out1" by simp
    show ?thesis
    proof (cases r1)
      case (Inl e)
      with Pair o1 show ?thesis by (simp add: crewai_flow_def Let_def)
    next
      case (Inr tasks)
      obtain out3 r3 where e3: "execute_tasks wc tasks = (out3, r3)" by (cases "execute_tasks wc tasks")
      with x [of tasks] have o3: "Print ''QA failed. Code or answer not deployed.'' \<notin> set out3"
        by simp
      from Pair Inr e3 o1 o3 show ?thesis
        by (cases r3) (simp_all add: crewai_flow_def Let_def initialize_project_def
              review_feedback_def get_feedback_def)
    qed
  qed
qed

lemma crewai_flow_entered:
  assumes "\<forall>l \<in> set entered. lower l \<noteq> ''done''" and "lower s = ''done''"
    and "entered \<noteq> []"
  shows "fst (crewai_flow wc (map Line entered @ Line s # rest))
           = [Print ''Enter the tasks for the project (type 'done' to finish):'']
             @ replicate (Suc (length entered)) (Prompt ''> '')
             @ [Print ''Project Manager: Initializing project and assigning tasks.'']
             @ fst (execute_tasks wc entered)
             @ (case snd (execute_tasks wc entered) of
                  Inl e \<Rightarrow> []
                | Inr u \<Rightarrow>
                    [Print ''Project Manager: Reviewing client feedback: Client feedback: Everything looks good!''])"
    and "snd (crewai_flow wc (map Line entered @ Line s # rest)) = snd (execute_tasks wc entered)"
  using assms
  by (cases "execute_tasks wc entered"; cases "snd (execute_tasks wc entered)";
      simp add: crewai_flow_def Let_def read_tasks_collect initialize_project_def
        review_feedback_def get_feedback_def)+

lemma processed_execute_tasks:
  assumes "\<And>task e. e \<in> set (fst (wc task)) \<Longrightarrow> \<exists>m. e = Print (''Developer: '' @ m)"
  shows "prefix (processed (fst (execute_tasks wc tasks))) tasks
         \<and> (snd (execute_tasks wc tasks) = Inr ()
              \<longrightarrow> processed (fst (execute_tasks wc tasks)) = tasks)"
proof (induction tasks)
  case Nil
  show ?case by simp
next
  case (Cons task rest)
  have dev: "processed (fst (wc task)) = []"
    using assms [of _ task] by (rule processed_developer)
  show ?case
  proof (cases "snd (wc task)")
    case (Inl e)
    with dev show ?thesis by (simp add: execute_tasks_Cons processed_append nl_def)
  next
    case (Inr result)
    with dev Cons.IH show ?thesis
      by (simp add: execute_tasks_Cons processed_append nl_def)
  qed
qed

lemma processed_replicate_Prompt: "processed (replicate n (Prompt p)) = []"
  by (induction n) simp_all

lemma processed_crewai_flow:
  assumes dev: "\<And>task e. e \<in> set (fst (wc task)) \<Longrightarrow> \<exists>m. e = Print (''Developer: '' @ m)"
    and "\<forall>l \<in> set entered. lower l \<noteq> ''done''" and "lower s = ''done''"
  shows "prefix (processed (fst (crewai_flow wc (map Line entered @ Line s # rest)))) entered
         \<and> (snd (crewai_flow wc (map Line entered @ Line s # rest)) = Inr ()
              \<longrightarrow> processed (fst (crewai_flow wc (map Line entered @ Line s # rest))) = entered)"
proof (cases "entered = []")
  case True
  with assms(3) show ?thesis by (simp add: crewai_flow_def Let_def nl_def)
next
  case False
  have p: "processed (fst (crewai_flow wc (map Line entered @ Line s # rest)))
             = processed (fst (execute_tasks wc entered))"
    using crewai_flow_entered(1) [OF assms(2,3) False, of wc rest]
    by (simp add: processed_append processed_replicate_Prompt nl_def split: sum.splits)
  show ?thesis
    using processed_execute_tasks [of wc entered] dev
      crewai_flow_entered(2) [OF assms(2,3) False, of wc rest]
    unfolding p by simp
qed

lemma execute_tasks_one:
  "execute_tasks wc (task # rest)
     = (case snd (wc task) of
          Inl e \<Rightarrow> (task_report wc task, Inl e)
        | Inr result \<Rightarrow>
            (task_report wc task @ fst (execute_tasks wc rest), snd (execute_tasks wc rest)))"
  by (simp add: execute_tasks_Cons task_report_def split: sum.splits)

lemma execute_tasks_returned:
  assumes "\<forall>t \<in> set before. \<exists>r. snd (wc t) = Inr r"
  shows "execute_tasks wc (before @ rest)
           = (concat (map (task_report wc) before) @ fst (execute_tasks wc rest),
              snd (execute_tasks wc rest))"
  using assms
proof (induction before)
  case Nil
  show ?case by simp
next
  case (Cons t before)
  from Cons.prems obtain r where r: "snd (wc t) = Inr r" by auto
  from Cons have ih: "execute_tasks wc (before @ rest)
           = (concat (map (task_report wc) before) @ fst (execute_tasks wc rest),
              snd (execute_tasks wc rest))" by simp
  show ?case using r ih by (simp add: execute_tasks_one)
qed

lemma execute_tasks_all_returned:
  assumes "\<forall>t \<in> set tasks. \<exists>r. snd (wc t) = Inr r"
  shows "execute_tasks wc tasks = (concat (map (task_report wc) tasks), Inr ())"
  using execute_tasks_returned [OF assms, of "[]"] by simp

lemma execute_tasks_raised:
  assumes "\<forall>t \<in> set before. \<exists>r. snd (wc t) = Inr r" and "snd (wc task) = Inl e"
  shows "execute_tasks wc (before @ task # after)
           = (concat (map (task_report wc) before) @ task_report wc task, Inl e)"
  using execute_tasks_returned [OF assms(1), of "task # after"] assms(2)
  by (simp add: execute_tasks_one)

lemma crewai_flow_whole:
  assumes "\<forall>l \<in> set entered. lower l \<noteq> ''done''" and "lower s = ''done''"
    and "entered \<noteq> []"
  shows "crewai_flow wc (map Line entered @ Line s # rest)
           = ([Print ''Enter the tasks for the project (type 'done' to finish):'']
              @ replicate (Suc (length entered)) (Prompt ''> '')
              @ [Print ''Project Manager: Initializing project and assigning tasks.'']
              @ fst (execute_tasks wc entered)
              @ (case snd (execute_tasks wc entered) of
                   Inl e \<Rightarrow> []
                 | Inr u \<Rightarrow>
                     [Print ''Project Manager: Reviewing client feedback: Client feedback: Everything looks good!'']),
              snd (execute_tasks wc entered))"
  using crewai_flow_entered [OF assms, of wc rest] by (simp add: prod_eq_iff)

lemma write_code_google_offline_samples:
  "write_code_google offline ''Set up the repository''
      = ([Print ''Developer: Processing task: Set up the repository'',
          Print ''Developer: Writing code for task: Set up the repository''],
         Inr ''Code for Set up the repository completed.'')"
  "write_code_google offline ''Write a function to sort a list''
      = ([Print ''Developer: Processing task: Write a function to sort a list'',
          Print ''Developer: Writing code for task: Write a function to sort a list''],
         Inr ''Code for Write a function to sort a list completed.'')"
  "write_code_google offline ''Who is Ada Lovelace''
      = ([Print ''Developer: Processing task: Who is Ada Lovelace'',
          Print ''Developer: Detected a question. Fetching answer from Wikipedia or Google.'',
          Print ''Developer: Falling back to wikipedia-api for detailed search.''],
         Inl (OtherException ''offline''))"
  by (simp_all add: write_code_google_def keyword_samples offline_def answering_def)

section \<open>The flow of the hand-written programs: results\<close>

text \<open>
  C3, as amended. \<open>test_code\<close> returns a string that contains \<open>passed\<close> for every
  input, so no run of \<open>crewai_flow\<close> prints the line of the failed check. For every task
  whose call of the developer returns, as the calls for the tasks before it did, the run
  writes, right after the lines of the developer for that task, the line of the check,
  the line of the deployment with its confirmation, and the update \<open>Task completed:\<close>
  with the task sent to the client; the whole output up to there is the opening, the
  reports of the tasks before, and the announcement of the task.
\<close>

theorem qa_passes_so_returned_tasks_are_deployed:
  "str_in ''passed'' (snd (test_code code))
   \<and> Print ''QA failed. Code or answer not deployed.''
        \<notin> set (fst (crewai_flow_google sv stdin))
   \<and> Print ''QA failed. Code or answer not deployed.''
        \<notin> set (fst (crewai_flow_wiki sv stdin))
   \<and> ((\<forall>l \<in> set (before @ task # after). lower l \<noteq> ''done'') \<and> lower s = ''done''
        \<and> (\<forall>t \<in> set before. \<exists>r. snd (write_code t) = Inr r)
        \<and> snd (write_code task) = Inr result
       \<longrightarrow> fst (crewai_flow write_code (map Line (before @ task # after) @ Line s # rest))
             = [Print ''Enter the tasks for the project (type 'done' to finish):'']
               @ replicate (Suc (length (before @ task # after))) (Prompt ''> '')
               @ [Print ''Project Manager: Initializing project and assigning tasks.'']
               @ concat (map (task_report write_code) before)
               @ [Print (nl @ ''Processing task: '' @ task)] @ fst (write_code task)
               @ [Print (''QA Agent: Testing code or answer: '' @ result),
                  Print (''DevOps Agent: Deploying code or answer: '' @ result),
                  Print ''Code or answer deployed successfully.'',
                  Print (''Client Communication Agent: Sending update to client: ''
                         @ ''Task completed: '' @ task)]
               @ fst (execute_tasks write_code after)
               @ (case snd (execute_tasks write_code after) of
                    Inl e \<Rightarrow> []
                  | Inr u \<Rightarrow>
                      [Print ''Project Manager: Reviewing client feedback: Client feedback: Everything looks good!'']))"
proof (intro conjI impI)
  show "str_in ''passed'' (snd (test_code code))"
    by (simp add: test_code_def)
  show "Print ''QA failed. Code or answer not deployed.''
          \<notin> set (fst (crewai_flow_google sv stdin))"
    unfolding crewai_flow_google_def
    by (rule crewai_flow_no_qa_failure) (rule write_code_google_events)
  show "Print ''QA failed. Code or answer not deployed.''
          \<notin> set (fst (crewai_flow_wiki sv stdin))"
    unfolding crewai_flow_wiki_def
    by (rule crewai_flow_no_qa_failure) (rule write_code_wiki_events)
next
  let ?entered = "before @ task # after"
  assume h: "(\<forall>l \<in> set ?entered. lower l \<noteq> ''done'') \<and> lower s = ''done''
        \<and> (\<forall>t \<in> set before. \<exists>r. snd (write_code t) = Inr r)
        \<and> snd (write_code task) = Inr result"
  then have h1: "\<forall>l \<in> set ?entered. lower l \<noteq> ''done''" and h2: "lower s = ''done''"
    and h3: "\<forall>t \<in> set before. \<exists>r. snd (write_code t) = Inr r"
    and h4: "snd (write_code task) = Inr result"
    by blast+
  have ne: "?entered \<noteq> []" by simp
  have x: "execute_tasks write_code ?entered
      = (concat (map (task_report write_code) before)
         @ [Print (nl @ ''Processing task: '' @ task)] @ fst (write_code task)
         @ [Print (''QA Agent: Testing code or answer: '' @ result),
            Print (''DevOps Agent: Deploying code or answer: '' @ result),
            Print ''Code or answer deployed successfully.'',
            Print (''Client Communication Agent: Sending update to client: ''
                   @ ''Task completed: '' @ task)]
         @ fst (execute_tasks write_code after),
         snd (execute_tasks write_code after))"
    using execute_tasks_returned [OF h3, of "task # after"] h4
    by (simp add: execute_tasks_one task_report_def)
  show "fst (crewai_flow write_code (map Line ?entered @ Line s # rest))
             = [Print ''Enter the tasks for the project (type 'done' to finish):'']
               @ replicate (Suc (length ?entered)) (Prompt ''> '')
               @ [Print ''Project Manager: Initializing project and assigning tasks.'']
               @ concat (map (task_report write_code) before)
               @ [Print (nl @ ''Processing task: '' @ task)] @ fst (write_code task)
               @ [Print (''QA Agent: Testing code or answer: '' @ result),
                  Print (''DevOps Agent: Deploying code or answer: '' @ result),
                  Print ''Code or answer deployed successfully.'',
                  Print (''Client Communication Agent: Sending update to client: ''
                         @ ''Task completed: '' @ task)]
               @ fst (execute_tasks write_code after)
               @ (case snd (execute_tasks write_code after) of
                    Inl e \<Rightarrow> []
                  | Inr u \<Rightarrow>
                      [Print ''Project Manager: Reviewing client feedback: Client feedback: Everything looks good!''])"
    using crewai_flow_entered(1) [OF h1 h2 ne, of write_code rest]
    unfolding x by simp
qed

theorem qa_passes_so_returned_tasks_are_deployed_witness:
  "fst (crewai_flow (write_code_google offline)
          [Line ''Set up the repository'', Line ''Write a function to sort a list'',
           Line ''done''])
     = [Print ''Enter the tasks for the project (type 'done' to finish):'',
        Prompt ''> '', Prompt ''> '', Prompt ''> '',
        Print ''Project Manager: Initializing project and assigning tasks.'',
        Print (nl @ ''Processing task: Set up the repository''),
        Print ''Developer: Processing task: Set up the repository'',
        Print ''Developer: Writing code for task: Set up the repository'',
        Print ''QA Agent: Testing code or answer: Code for Set up the repository completed.'',
        Print ''DevOps Agent: Deploying code or answer: Code for Set up the repository completed.'',
        Print ''Code or answer deployed successfully.'',
        Print ''Client Communication Agent: Sending update to client: Task completed: Set up the repository'',
        Print (nl @ ''Processing task: Write a function to sort a list''),
        Print ''Developer: Processing task: Write a function to sort a list'',
        Print ''Developer: Writing code for task: Write a function to sort a list'',
        Print ''QA Agent: Testing code or answer: Code for Write a function to sort a list completed.'',
        Print ''DevOps Agent: Deploying code or answer: Code for Write a function to sort a list completed.'',
        Print ''Code or answer deployed successfully.'',
        Print ''Client Communication Agent: Sending update to client: Task completed: Write a function to sort a list'',
        Print ''Project Manager: Reviewing client feedback: Client feedback: Everything looks good!'']"
proof -
  note w = write_code_google_offline_samples
  have h: "(\<forall>l \<in> set ([''Set up the repository''] @ ''Write a function to sort a list'' # []).
              lower l \<noteq> ''done'') \<and> lower ''done'' = ''done''
        \<and> (\<forall>t \<in> set [''Set up the repository''].
              \<exists>r. snd (write_code_google offline t) = Inr r)
        \<and> snd (write_code_google offline ''Write a function to sort a list'')
            = Inr ''Code for Write a function to sort a list completed.''"
    by (simp add: w lower_samples)
  show ?thesis
    using h qa_passes_so_returned_tasks_are_deployed
      [where before = "[''Set up the repository'']"
         and task = "''Write a function to sort a list''" and after = "[]"
         and s = "''done''" and write_code = "write_code_google offline"
         and result = "''Code for Write a function to sort a list completed.''"
         and rest = "[]"]
    by (simp add: task_report_def w)
qed

text \<open>
  The claim as it was stated has the deployment and the notification for every task
  processed. With the network down a question is announced and handed to the developer,
  whose fallback call raises: the run ends there, with no deployment and no update.
\<close>

theorem qa_passes_so_returned_tasks_are_deployed_counterexample:
  "crewai_flow_google offline [Line ''Who is Ada Lovelace'', Line ''done'']
     = ([Print ''Enter the tasks for the project (type 'done' to finish):'',
         Prompt ''> '', Prompt ''> '',
         Print ''Project Manager: Initializing project and assigning tasks.'',
         Print (nl @ ''Processing task: Who is Ada Lovelace''),
         Print ''Developer: Processing task: Who is Ada Lovelace'',
         Print ''Developer: Detected a question. Fetching answer from Wikipedia or Google.'',
         Print ''Developer: Falling back to wikipedia-api for detailed search.''],
        Inl (OtherException ''offline''))
   \<and> processed (fst (crewai_flow_google offline [Line ''Who is Ada Lovelace'', Line ''done'']))
       = [''Who is Ada Lovelace'']
   \<and> Print ''Client Communication Agent: Sending update to client: Task completed: Who is Ada Lovelace''
       \<notin> set (fst (crewai_flow_google offline [Line ''Who is Ada Lovelace'', Line ''done'']))"
  by (simp add: crewai_flow_google_def crewai_flow_def Let_def initialize_project_def
        lower_samples execute_tasks_Cons write_code_google_offline_samples nl_def)

text \<open>
  C5. If the first line read is the sentinel, \<open>crewai_flow\<close> prints the invitation,
  prompts once, prints \<open>No tasks provided. Exiting.\<close> and returns: nothing else is
  written and no service is consulted.
\<close>

theorem sentinel_first_exits:
  assumes "lower l = ''done''"
  shows "crewai_flow_google sv (Line l # rest)
           = ([Print ''Enter the tasks for the project (type 'done' to finish):'',
               Prompt ''> '', Print ''No tasks provided. Exiting.''], Inr ())
         \<and> crewai_flow_wiki sv (Line l # rest)
           = ([Print ''Enter the tasks for the project (type 'done' to finish):'',
               Prompt ''> '', Print ''No tasks provided. Exiting.''], Inr ())"
  using assms by (simp add: crewai_flow_google_def crewai_flow_wiki_def crewai_flow_def)

theorem sentinel_first_exits_witness:
  "lower ''done'' = ''done''
   \<and> crewai_flow_google offline [Line ''done'']
           = ([Print ''Enter the tasks for the project (type 'done' to finish):'',
               Prompt ''> '', Print ''No tasks provided. Exiting.''], Inr ())
   \<and> crewai_flow_wiki offline [Line ''done'']
           = ([Print ''Enter the tasks for the project (type 'done' to finish):'',
               Prompt ''> '', Print ''No tasks provided. Exiting.''], Inr ())"
proof -
  have h: "lower ''done'' = ''done''" by (simp add: lower_samples)
  from sentinel_first_exits [OF h, of offline "[]"] h show ?thesis by simp
qed

text \<open>
  C10, as amended. \<open>initialize_project\<close> returns its list of tasks unchanged. When every
  call of the developer returns, \<open>crewai_flow\<close> processes the tasks entered before the
  sentinel, each once and in the order of entry: its output is the opening, the report of
  each task in turn, and the review of the feedback. When a call of the developer raises,
  the tasks up to that one are processed in order and the run ends with the exception:
  the later tasks are not processed. In both programs the tasks announced are a prefix of
  the tasks entered, and all of them when the run returns.
\<close>

theorem tasks_processed_in_order_until_a_call_raises:
  "snd (initialize_project tasks) = tasks
   \<and> ((\<forall>l \<in> set entered. lower l \<noteq> ''done'') \<and> lower s = ''done'' \<and> entered \<noteq> []
        \<and> (\<forall>t \<in> set entered. \<exists>r. snd (write_code t) = Inr r)
       \<longrightarrow> crewai_flow write_code (map Line entered @ Line s # rest)
             = ([Print ''Enter the tasks for the project (type 'done' to finish):'']
                @ replicate (Suc (length entered)) (Prompt ''> '')
                @ [Print ''Project Manager: Initializing project and assigning tasks.'']
                @ concat (map (task_report write_code) entered)
                @ [Print ''Project Manager: Reviewing client feedback: Client feedback: Everything looks good!''],
                Inr ()))
   \<and> ((\<forall>l \<in> set (before @ task # after). lower l \<noteq> ''done'') \<and> lower s = ''done''
        \<and> (\<forall>t \<in> set before. \<exists>r. snd (write_code t) = Inr r)
        \<and> snd (write_code task) = Inl e
       \<longrightarrow> crewai_flow write_code (map Line (before @ task # after) @ Line s # rest)
             = ([Print ''Enter the tasks for the project (type 'done' to finish):'']
                @ replicate (Suc (length (before @ task # after))) (Prompt ''> '')
                @ [Print ''Project Manager: Initializing project and assigning tasks.'']
                @ concat (map (task_report write_code) before)
                @ task_report write_code task,
                Inl e))
   \<and> ((\<forall>l \<in> set entered. lower l \<noteq> ''done'') \<and> lower s = ''done''
        \<and> (write_code = write_code_google sv \<or> write_code = write_code_wiki sv)
       \<longrightarrow> prefix (processed (fst (crewai_flow write_code (map Line entered @ Line s # rest))))
              entered
           \<and> (snd (crewai_flow write_code (map Line entered @ Line s # rest)) = Inr ()
                \<longrightarrow> processed (fst (crewai_flow write_code (map Line entered @ Line s # rest)))
                      = entered))"
proof (intro conjI impI)
  show "snd (initialize_project tasks) = tasks" by (simp add: initialize_project_def)
next
  assume h: "(\<forall>l \<in> set entered. lower l \<noteq> ''done'') \<and> lower s = ''done'' \<and> entered \<noteq> []
        \<and> (\<forall>t \<in> set entered. \<exists>r. snd (write_code t) = Inr r)"
  then have h1: "\<forall>l \<in> set entered. lower l \<noteq> ''done''" and h2: "lower s = ''done''"
    and h3: "entered \<noteq> []" and h4: "\<forall>t \<in> set entered. \<exists>r. snd (write_code t) = Inr r"
    by blast+
  show "crewai_flow write_code (map Line entered @ Line s # rest)
             = ([Print ''Enter the tasks for the project (type 'done' to finish):'']
                @ replicate (Suc (length entered)) (Prompt ''> '')
                @ [Print ''Project Manager: Initializing project and assigning tasks.'']
                @ concat (map (task_report write_code) entered)
                @ [Print ''Project Manager: Reviewing client feedback: Client feedback: Everything looks good!''],
                Inr ())"
    unfolding crewai_flow_whole [OF h1 h2 h3] execute_tasks_all_returned [OF h4] by simp
next
  let ?entered = "before @ task # after"
  assume h: "(\<forall>l \<in> set ?entered. lower l \<noteq> ''done'') \<and> lower s = ''done''
        \<and> (\<forall>t \<in> set before. \<exists>r. snd (write_code t) = Inr r)
        \<and> snd (write_code task) = Inl e"
  then have h1: "\<forall>l \<in> set ?entered. lower l \<noteq> ''done''" and h2: "lower s = ''done''"
    and h3: "\<forall>t \<in> set before. \<exists>r. snd (write_code t) = Inr r"
    and h4: "snd (write_code task) = Inl e"
    by blast+
  have ne: "?entered \<noteq> []" by simp
  show "crewai_flow write_code (map Line ?entered @ Line s # rest)
             = ([Print ''Enter the tasks for the project (type 'done' to finish):'']
                @ replicate (Suc (length ?entered)) (Prompt ''> '')
                @ [Print ''Project Manager: Initializing project and assigning tasks.'']
                @ concat (map (task_report write_code) before)
                @ task_report write_code task,
                Inl e)"
    unfolding crewai_flow_whole [OF h1 h2 ne] execute_tasks_raised [OF h3 h4] by simp
next
  assume h: "(\<forall>l \<in> set entered. lower l \<noteq> ''done'') \<and> lower s = ''done''
        \<and> (write_code = write_code_google sv \<or> write_code = write_code_wiki sv)"
  then have dev: "\<And>task e. e \<in> set (fst (write_code task))
                   \<Longrightarrow> \<exists>m. e = Print (''Developer: '' @ m)"
    using write_code_google_events write_code_wiki_events by blast
  from h have h1: "\<forall>l \<in> set entered. lower l \<noteq> ''done''" and h2: "lower s = ''done''"
    by blast+
  have main: "prefix (processed (fst (crewai_flow write_code (map Line entered @ Line s # rest)))) entered
         \<and> (snd (crewai_flow write_code (map Line entered @ Line s # rest)) = Inr ()
              \<longrightarrow> processed (fst (crewai_flow write_code (map Line entered @ Line s # rest))) = entered)"
    by (rule processed_crewai_flow [OF _ h1 h2]) (rule dev)
  from main show "prefix (processed (fst (crewai_flow write_code (map Line entered @ Line s # rest))))
              entered" by blast
  assume "snd (crewai_flow write_code (map Line entered @ Line s # rest)) = Inr ()"
  with main show "processed (fst (crewai_flow write_code (map Line entered @ Line s # rest)))
                      = entered" by blast
qed

theorem tasks_processed_in_order_until_a_call_raises_witness:
  "crewai_flow (write_code_google offline)
      [Line ''Set up the repository'', Line ''Write a function to sort a list'', Line ''done'']
    = ([Print ''Enter the tasks for the project (type 'done' to finish):'',
        Prompt ''> '', Prompt ''> '', Prompt ''> '',
        Print ''Project Manager: Initializing project and assigning tasks.'',
        Print (nl @ ''Processing task: Set up the repository''),
        Print ''Developer: Processing task: Set up the repository'',
        Print ''Developer: Writing code for task: Set up the repository'',
        Print ''QA Agent: Testing code or answer: Code for Set up the repository completed.'',
        Print ''DevOps Agent: Deploying code or answer: Code for Set up the repository completed.'',
        Print ''Code or answer deployed successfully.'',
        Print ''Client Communication Agent: Sending update to client: Task completed: Set up the repository'',
        Print (nl @ ''Processing task: Write a function to sort a list''),
        Print ''Developer: Processing task: Write a function to sort a list'',
        Print ''Developer: Writing code for task: Write a function to sort a list'',
        Print ''QA Agent: Testing code or answer: Code for Write a function to sort a list completed.'',
        Print ''DevOps Agent: Deploying code or answer: Code for Write a function to sort a list completed.'',
        Print ''Code or answer deployed successfully.'',
        Print ''Client Communication Agent: Sending update to client: Task completed: Write a function to sort a list'',
        Print ''Project Manager: Reviewing client feedback: Client feedback: Everything looks good!''],
       Inr ())
   \<and> crewai_flow (write_code_google offline)
      [Line ''Set up the repository'', Line ''Who is Ada Lovelace'', Line ''next task'',
       Line ''done'']
    = ([Print ''Enter the tasks for the project (type 'done' to finish):'',
        Prompt ''> '', Prompt ''> '', Prompt ''> '', Prompt ''> '',
        Print ''Project Manager: Initializing project and assigning tasks.'',
        Print (nl @ ''Processing task: Set up the repository''),
        Print ''Developer: Processing task: Set up the repository'',
        Print ''Developer: Writing code for task: Set up the repository'',
        Print ''QA Agent: Testing code or answer: Code for Set up the repository completed.'',
        Print ''DevOps Agent: Deploying code or answer: Code for Set up the repository completed.'',
        Print ''Code or answer deployed successfully.'',
        Print ''Client Communication Agent: Sending update to client: Task completed: Set up the repository'',
        Print (nl @ ''Processing task: Who is Ada Lovelace''),
        Print ''Developer: Processing task: Who is Ada Lovelace'',
        Print ''Developer: Detected a question. Fetching answer from Wikipedia or Google.'',
        Print ''Developer: Falling back to wikipedia-api for detailed search.''],
       Inl (OtherException ''offline''))
   \<and> processed (fst (crewai_flow (write_code_google offline)
        [Line ''Set up the repository'', Line ''Write a function to sort a list'',
         Line ''done'']))
      = [''Set up the repository'', ''Write a function to sort a list'']"
proof -
  note w = write_code_google_offline_samples
  have d1: "(\<forall>l \<in> set [''Set up the repository'', ''Write a function to sort a list''].
              lower l \<noteq> ''done'') \<and> lower ''done'' = ''done''"
    by (simp add: lower_samples)
  have d2: "(\<forall>l \<in> set ([''Set up the repository''] @ ''Who is Ada Lovelace'' # [''next task'']).
              lower l \<noteq> ''done'') \<and> lower ''done'' = ''done''"
    by (simp add: lower_samples)
  note t1 = tasks_processed_in_order_until_a_call_raises
    [where entered = "[''Set up the repository'', ''Write a function to sort a list'']"
       and s = "''done''" and write_code = "write_code_google offline" and rest = "[]"
       and sv = offline
       and before = "[''Set up the repository'']" and task = "''Who is Ada Lovelace''"
       and after = "[''next task'']" and e = "OtherException ''offline''"]
  have A: "crewai_flow (write_code_google offline)
      [Line ''Set up the repository'', Line ''Write a function to sort a list'', Line ''done'']
    = ([Print ''Enter the tasks for the project (type 'done' to finish):'',
        Prompt ''> '', Prompt ''> '', Prompt ''> '',
        Print ''Project Manager: Initializing project and assigning tasks.'',
        Print (nl @ ''Processing task: Set up the repository''),
        Print ''Developer: Processing task: Set up the repository'',
        Print ''Developer: Writing code for task: Set up the repository'',
        Print ''QA Agent: Testing code or answer: Code for Set up the repository completed.'',
        Print ''DevOps Agent: Deploying code or answer: Code for Set up the repository completed.'',
        Print ''Code or answer deployed successfully.'',
        Print ''Client Communication Agent: Sending update to client: Task completed: Set up the repository'',
        Print (nl @ ''Processing task: Write a function to sort a list''),
        Print ''Developer: Processing task: Write a function to sort a list'',
        Print ''Developer: Writing code for task: Write a function to sort a list'',
        Print ''QA Agent: Testing code or answer: Code for Write a function to sort a list completed.'',
        Print ''DevOps Agent: Deploying code or answer: Code for Write a function to sort a list completed.'',
        Print ''Code or answer deployed successfully.'',
        Print ''Client Communication Agent: Sending update to client: Task completed: Write a function to sort a list'',
        Print ''Project Manager: Reviewing client feedback: Client feedback: Everything looks good!''],
       Inr ())"
    using t1 d1 by (simp add: w task_report_def)
  have B: "crewai_flow (write_code_google offline)
      [Line ''Set up the repository'', Line ''Who is Ada Lovelace'', Line ''next task'',
       Line ''done'']
    = ([Print ''Enter the tasks for the project (type 'done' to finish):'',
        Prompt ''> '', Prompt ''> '', Prompt ''> '', Prompt ''> '',
        Print ''Project Manager: Initializing project and assigning tasks.'',
        Print (nl @ ''Processing task: Set up the repository''),
        Print ''Developer: Processing task: Set up the repository'',
        Print ''Developer: Writing code for task: Set up the repository'',
        Print ''QA Agent: Testing code or answer: Code for Set up the repository completed.'',
        Print ''DevOps Agent: Deploying code or answer: Code for Set up the repository completed.'',
        Print ''Code or answer deployed successfully.'',
        Print ''Client Communication Agent: Sending update to client: Task completed: Set up the repository'',
        Print (nl @ ''Processing task: Who is Ada Lovelace''),
        Print ''Developer: Processing task: Who is Ada Lovelace'',
        Print ''Developer: Detected a question. Fetching answer from Wikipedia or Google.'',
        Print ''Developer: Falling back to wikipedia-api for detailed search.''],
       Inl (OtherException ''offline''))"
    using t1 d2 by (simp add: w task_report_def)
  have C: "processed (fst (crewai_flow (write_code_google offline)
        [Line ''Set up the repository'', Line ''Write a function to sort a list'',
         Line ''done'']))
      = [''Set up the repository'', ''Write a function to sort a list'']"
    using t1 d1 A by simp
  from A B C show ?thesis by blast
qed

text \<open>
  The claim as it was stated has every entered task processed. With the network down and
  a question entered first, the task entered after it is never announced.
\<close>

theorem tasks_processed_in_order_until_a_call_raises_counterexample:
  "processed (fst (crewai_flow_google offline
      [Line ''Who is Ada Lovelace'', Line ''next task'', Line ''done'']))
     = [''Who is Ada Lovelace'']
   \<and> snd (crewai_flow_google offline
      [Line ''Who is Ada Lovelace'', Line ''next task'', Line ''done''])
     = Inl (OtherException ''offline'')
   \<and> Print (nl @ ''Processing task: next task'')
       \<notin> set (fst (crewai_flow_google offline
              [Line ''Who is Ada Lovelace'', Line ''next task'', Line ''done'']))"
  by (simp add: crewai_flow_google_def crewai_flow_def Let_def initialize_project_def
        lower_samples execute_tasks_Cons write_code_google_offline_samples nl_def)

section \<open>Loading the configuration\<close>

lemma validate_keys_ok:
  "validate_keys config keys = Inr c \<Longrightarrow> c = config \<and> (\<forall>key \<in> set keys. key_in key config = Inr True)"
  by (induction keys) (auto split: sum.splits if_splits)

lemma validate_keys_missing:
  assumes "\<not> set keys \<subseteq> fst ` set kvs"
  shows "\<exists>key. key \<in> set keys \<and> key \<notin> fst ` set kvs
           \<and> validate_keys (JObj kvs) keys
               = Inl (ConfigError (''Missing required key '' @ apos @ key @ apos
                                     @ '' in configuration file.''))"
  using assms
proof (induction keys)
  case Nil
  then show ?case by simp
next
  case (Cons k keys)
  show ?case
  proof (cases "k \<in> fst ` set kvs")
    case True
    with Cons.prems have "\<not> set keys \<subseteq> fst ` set kvs" by auto
    with Cons.IH obtain key where "key \<in> set keys" "key \<notin> fst ` set kvs"
      "validate_keys (JObj kvs) keys
               = Inl (ConfigError (''Missing required key '' @ apos @ key @ apos
                                     @ '' in configuration file.''))" by blast
    with True show ?thesis by auto
  next
    case False
    then show ?thesis by auto
  qed
qed

lemma load_config_sample: "load_config sample_apis ''config.json'' = Inr sample_config"
proof -
  have ne: "config_text \<noteq> []" by (simp add: config_text_def)
  then show ?thesis
    by (simp add: load_config_def load_config_try_def Let_def sample_apis_def strip_samples
          json_samples sample_config_def required_keys_def)
qed

lemma load_config_Inr:
  assumes "load_config env f = Inr config"
  shows "\<exists>body. file_at env f = Content body \<and> strip body \<noteq> []
           \<and> json_loads env (strip body) = Inr config
           \<and> (\<forall>key \<in> set required_keys. key_in key config = Inr True)"
proof -
  from assms have t: "load_config_try env f = Inr config"
    by (auto simp: load_config_def split: sum.splits exn.splits if_splits)
  then obtain body where c: "file_at env f = Content body"
    by (cases "file_at env f") (auto simp: load_config_try_def)
  with t have ne: "strip body \<noteq> []"
    by (auto simp: load_config_try_def Let_def split: if_splits)
  with t c obtain cfg where j: "json_loads env (strip body) = Inr cfg"
    and v: "validate_keys cfg required_keys = Inr config"
    by (auto simp: load_config_try_def Let_def split: sum.splits)
  from validate_keys_ok [OF v] j c ne show ?thesis by auto
qed

text \<open>
  C4. \<open>load_config\<close> raises a \<open>ConfigError\<close> when the file is missing, when its
  text is empty after stripping, when the text is not valid JSON, and when the parsed
  object lacks a required key; the four messages differ from each other and name the
  case. \<open>load_config\<close> returns a configuration only when the file exists, its stripped
  text is not empty, the text parses and every required key is in the parsed value. When
  \<open>load_config\<close> raises a \<open>ConfigError\<close>, the entry point logs its message and ends:
  the APIs are not initialized.
\<close>

theorem load_config_errors:
  "(file_at env f = Missing \<longrightarrow>
      load_config env f
        = Inl (ConfigError (''Failed to load configuration: '' @ ''Configuration file '' @ apos
                 @ f @ apos @ '' not found. Please create it.'')))
   \<and> (file_at env f = Content body \<and> strip body = [] \<longrightarrow>
      load_config env f
        = Inl (ConfigError (''Failed to load configuration: '' @ ''Configuration file '' @ apos
                 @ f @ apos @ '' is empty. Please add the required keys.'')))
   \<and> (file_at env f = Content body \<and> strip body \<noteq> []
        \<and> json_loads env (strip body) = Inl (JSONDecodeError m) \<longrightarrow>
      load_config env f = Inl (ConfigError (''Invalid JSON in configuration file: '' @ m)))
   \<and> (file_at env f = Content body \<and> strip body \<noteq> []
        \<and> json_loads env (strip body) = Inr (JObj kvs)
        \<and> \<not> set required_keys \<subseteq> fst ` set kvs \<longrightarrow>
      (\<exists>key. key \<in> set required_keys \<and> key \<notin> fst ` set kvs
         \<and> load_config env f
             = Inl (ConfigError (''Failed to load configuration: '' @ ''Missing required key ''
                      @ apos @ key @ apos @ '' in configuration file.''))))
   \<and> distinct
        [''Failed to load configuration: '' @ ''Configuration file '' @ apos @ f @ apos
           @ '' not found. Please create it.'',
         ''Failed to load configuration: '' @ ''Configuration file '' @ apos @ f @ apos
           @ '' is empty. Please add the required keys.'',
         ''Invalid JSON in configuration file: '' @ m,
         ''Failed to load configuration: '' @ ''Missing required key '' @ apos @ k @ apos
           @ '' in configuration file.'']
   \<and> (load_config env f = Inr config \<longrightarrow>
        (\<exists>body. file_at env f = Content body \<and> strip body \<noteq> []
           \<and> json_loads env (strip body) = Inr config
           \<and> (\<forall>key \<in> set required_keys. key_in key config = Inr True)))
   \<and> (load_config env ''config.json'' = Inl (ConfigError msg) \<longrightarrow>
        entry_point env stdin = Some ([Log ERROR msg], Inr ()))"
proof (intro conjI impI)
  show "distinct
        [''Failed to load configuration: '' @ ''Configuration file '' @ apos @ f @ apos
           @ '' not found. Please create it.'',
         ''Failed to load configuration: '' @ ''Configuration file '' @ apos @ f @ apos
           @ '' is empty. Please add the required keys.'',
         ''Invalid JSON in configuration file: '' @ m,
         ''Failed to load configuration: '' @ ''Missing required key '' @ apos @ k @ apos
           @ '' in configuration file.'']"
    by (simp add: apos_def)
next
  assume "file_at env f = Missing"
  then show "load_config env f
        = Inl (ConfigError (''Failed to load configuration: '' @ ''Configuration file '' @ apos
                 @ f @ apos @ '' not found. Please create it.''))"
    by (simp add: load_config_def load_config_try_def)
next
  assume "file_at env f = Content body \<and> strip body = []"
  then show "load_config env f
        = Inl (ConfigError (''Failed to load configuration: '' @ ''Configuration file '' @ apos
                 @ f @ apos @ '' is empty. Please add the required keys.''))"
    by (simp add: load_config_def load_config_try_def)
next
  assume "file_at env f = Content body \<and> strip body \<noteq> []
        \<and> json_loads env (strip body) = Inl (JSONDecodeError m)"
  then show "load_config env f = Inl (ConfigError (''Invalid JSON in configuration file: '' @ m))"
    by (simp add: load_config_def load_config_try_def)
next
  assume h: "file_at env f = Content body \<and> strip body \<noteq> []
        \<and> json_loads env (strip body) = Inr (JObj kvs)
        \<and> \<not> set required_keys \<subseteq> fst ` set kvs"
  then obtain key where k: "key \<in> set required_keys" "key \<notin> fst ` set kvs"
    and v: "validate_keys (JObj kvs) required_keys
               = Inl (ConfigError (''Missing required key '' @ apos @ key @ apos
                                     @ '' in configuration file.''))"
    using validate_keys_missing [of required_keys kvs] by blast
  from h v have "load_config env f
             = Inl (ConfigError (''Failed to load configuration: '' @ ''Missing required key ''
                      @ apos @ key @ apos @ '' in configuration file.''))"
    by (simp add: load_config_def load_config_try_def)
  with k show "\<exists>key. key \<in> set required_keys \<and> key \<notin> fst ` set kvs
         \<and> load_config env f
             = Inl (ConfigError (''Failed to load configuration: '' @ ''Missing required key ''
                      @ apos @ key @ apos @ '' in configuration file.''))"
    by blast
next
  assume "load_config env f = Inr config"
  then show "\<exists>body. file_at env f = Content body \<and> strip body \<noteq> []
           \<and> json_loads env (strip body) = Inr config
           \<and> (\<forall>key \<in> set required_keys. key_in key config = Inr True)"
    by (rule load_config_Inr)
next
  assume "load_config env ''config.json'' = Inl (ConfigError msg)"
  then show "entry_point env stdin = Some ([Log ERROR msg], Inr ())"
    by (simp add: entry_point_def handlers_def)
qed

theorem load_config_errors_witness:
  "load_config (sample_apis\<lparr>file_at := (\<lambda>path. Missing)\<rparr>) ''config.json''
     = Inl (ConfigError (''Failed to load configuration: Configuration file '' @ apos
              @ ''config.json'' @ apos @ '' not found. Please create it.''))
   \<and> load_config (sample_apis\<lparr>file_at := (\<lambda>path. Content ''   '')\<rparr>) ''config.json''
     = Inl (ConfigError (''Failed to load configuration: Configuration file '' @ apos
              @ ''config.json'' @ apos @ '' is empty. Please add the required keys.''))
   \<and> load_config (sample_apis\<lparr>file_at := (\<lambda>path. Content [CHR 0xA0])\<rparr>) ''config.json''
     = Inl (ConfigError (''Failed to load configuration: Configuration file '' @ apos
              @ ''config.json'' @ apos @ '' is empty. Please add the required keys.''))
   \<and> load_config (sample_apis\<lparr>file_at := (\<lambda>path. Content ''not json'')\<rparr>) ''config.json''
     = Inl (ConfigError
              ''Invalid JSON in configuration file: Expecting value: line 1 column 1 (char 0)'')
   \<and> (\<exists>key. key \<in> set required_keys
         \<and> load_config (sample_apis\<lparr>file_at := (\<lambda>path. Content partial_text)\<rparr>)
              ''config.json''
            = Inl (ConfigError (''Failed to load configuration: Missing required key ''
                      @ apos @ key @ apos @ '' in configuration file.'')))
   \<and> load_config sample_apis ''config.json'' = Inr sample_config
   \<and> key_in ''GOOGLE_CSE_ID'' sample_config = Inr True
   \<and> entry_point (sample_apis\<lparr>file_at := (\<lambda>path. Missing)\<rparr>) [Line ''exit'']
     = Some ([Log ERROR (''Failed to load configuration: Configuration file '' @ apos
              @ ''config.json'' @ apos @ '' not found. Please create it.'')], Inr ())"
proof -
  note ok = load_config_sample
  have j: "json_loads sample_apis = sample_json_loads" by (simp add: sample_apis_def)
  have k: "\<not> set required_keys \<subseteq> fst ` set [(''OPENAI_API_KEY'', JStr ''sk-1'')]"
    by (simp add: required_keys_def)
  note a = load_config_errors [where env = "sample_apis\<lparr>file_at := (\<lambda>path. Missing)\<rparr>"
      and f = "''config.json''" and stdin = "[Line ''exit'']"
      and msg = "''Failed to load configuration: Configuration file '' @ apos
              @ ''config.json'' @ apos @ '' not found. Please create it.''"]
  note b = load_config_errors [where env = "sample_apis\<lparr>file_at := (\<lambda>path. Content ''   '')\<rparr>"
      and f = "''config.json''" and body = "''   ''"]
  note b' = load_config_errors
      [where env = "sample_apis\<lparr>file_at := (\<lambda>path. Content [CHR 0xA0])\<rparr>"
         and f = "''config.json''" and body = "[CHR 0xA0]"]
  note c = load_config_errors
      [where env = "sample_apis\<lparr>file_at := (\<lambda>path. Content ''not json'')\<rparr>"
         and f = "''config.json''" and body = "''not json''"
         and m = "''Expecting value: line 1 column 1 (char 0)''"]
  note d = load_config_errors
      [where env = "sample_apis\<lparr>file_at := (\<lambda>path. Content partial_text)\<rparr>"
         and f = "''config.json''" and body = partial_text
         and kvs = "[(''OPENAI_API_KEY'', JStr ''sk-1'')]"]
  note e = load_config_errors [where env = sample_apis and f = "''config.json''"
      and config = sample_config]
  have A: "load_config (sample_apis\<lparr>file_at := (\<lambda>path. Missing)\<rparr>) ''config.json''
     = Inl (ConfigError (''Failed to load configuration: Configuration file '' @ apos
              @ ''config.json'' @ apos @ '' not found. Please create it.''))"
    using a by simp
  have A': "entry_point (sample_apis\<lparr>file_at := (\<lambda>path. Missing)\<rparr>) [Line ''exit'']
     = Some ([Log ERROR (''Failed to load configuration: Configuration file '' @ apos
              @ ''config.json'' @ apos @ '' not found. Please create it.'')], Inr ())"
    using a A by simp
  have B: "load_config (sample_apis\<lparr>file_at := (\<lambda>path. Content ''   '')\<rparr>) ''config.json''
     = Inl (ConfigError (''Failed to load configuration: Configuration file '' @ apos
              @ ''config.json'' @ apos @ '' is empty. Please add the required keys.''))"
    using b by (simp add: strip_samples)
  have B': "load_config (sample_apis\<lparr>file_at := (\<lambda>path. Content [CHR 0xA0])\<rparr>) ''config.json''
     = Inl (ConfigError (''Failed to load configuration: Configuration file '' @ apos
              @ ''config.json'' @ apos @ '' is empty. Please add the required keys.''))"
    using b' by (simp add: strip_samples)
  have C: "load_config (sample_apis\<lparr>file_at := (\<lambda>path. Content ''not json'')\<rparr>) ''config.json''
     = Inl (ConfigError
              ''Invalid JSON in configuration file: Expecting value: line 1 column 1 (char 0)'')"
    using c by (simp add: strip_samples j json_samples)
  have D: "\<exists>key. key \<in> set required_keys
         \<and> load_config (sample_apis\<lparr>file_at := (\<lambda>path. Content partial_text)\<rparr>)
              ''config.json''
            = Inl (ConfigError (''Failed to load configuration: Missing required key ''
                      @ apos @ key @ apos @ '' in configuration file.''))"
  proof -
    have ne: "strip partial_text \<noteq> []"
      by (simp only: strip_samples) (simp add: partial_text_def)
    from d ne k show ?thesis by (simp add: strip_samples j json_samples) blast
  qed
  have E: "key_in ''GOOGLE_CSE_ID'' sample_config = Inr True"
    using e [where body = "[]" and m = "[]" and kvs = "[]"] ok
    by (auto simp: required_keys_def)
  from A A' B B' C D E ok show ?thesis by blast
qed

section \<open>The input loops\<close>

lemma read_tasks_Inr:
  assumes "snd (read_tasks stdin tasks) = Inr result"
  shows "\<exists>entered s rest. stdin = map Line entered @ Line s # rest
           \<and> (\<forall>l \<in> set entered. lower l \<noteq> ''done'') \<and> lower s = ''done''
           \<and> result = tasks @ entered"
  using assms
proof (induction stdin tasks rule: read_tasks.induct)
  case (1 tasks)
  then show ?case by simp
next
  case (2 rest tasks)
  then show ?case by simp
next
  case (3 task rest tasks)
  show ?case
  proof (cases "lower task = ''done''")
    case True
    with 3 have "Line task # rest = map Line [] @ Line task # rest
           \<and> (\<forall>l \<in> set []. lower l \<noteq> ''done'') \<and> lower task = ''done''
           \<and> result = tasks @ []" by simp
    then show ?thesis by blast
  next
    case False
    with 3 obtain entered s rest' where
      e: "rest = map Line entered @ Line s # rest'"
         "\<forall>l \<in> set entered. lower l \<noteq> ''done''" "lower s = ''done''"
         "result = (tasks @ [task]) @ entered"
      by (auto split: prod.splits)
    with False have "Line task # rest = map Line (task # entered) @ Line s # rest'
           \<and> (\<forall>l \<in> set (task # entered). lower l \<noteq> ''done'') \<and> lower s = ''done''
           \<and> result = tasks @ (task # entered)" by simp
    then show ?thesis by blast
  qed
qed

lemma main_loop_exit:
  assumes "lower (strip l) = ''exit''"
  shows "main_loop env (Line l # rest) out
           = Some (out @ [Prompt (nl @ ''Ask a question (or type 'exit' to quit): ''),
                          Log INFO ''Exiting the program.''], Inr ())"
  using assms by (subst main_loop.simps) (simp add: Let_def)

lemma main_loop_CtrlC:
  "main_loop env (CtrlC # rest) out
     = Some (out @ [Prompt (nl @ ''Ask a question (or type 'exit' to quit): ''),
                    Log INFO (nl @ ''Exiting the program.'')], Inr ())"
  by (subst main_loop.simps) (simp add: Let_def)

lemma main_loop_interrupted:
  assumes "lower (strip l) \<noteq> ''exit''" and "lower (strip l) \<noteq> ''help''" and "strip l \<noteq> []"
    and "kickoff env (strip l) = Inl KeyboardInterrupt"
  shows "main_loop env (Line l # rest) out
           = Some (out @ [Prompt (nl @ ''Ask a question (or type 'exit' to quit): ''),
                          Log INFO (''Processing question: '' @ strip l),
                          Log INFO (nl @ ''Exiting the program.'')], Inr ())"
  using assms by (subst main_loop.simps) (simp add: Let_def)


lemma main_loop_reaches_exit:
  assumes "\<forall>l \<in> set questions. lower (strip l) \<noteq> ''exit'' \<and> kickoff env (strip l) \<noteq> Inl KeyboardInterrupt"
    and "lower (strip x) = ''exit''"
  shows "\<exists>out'. main_loop env (map Line questions @ Line x # rest) out = Some (out', Inr ())"
  using assms(1)
proof (induction questions arbitrary: out)
  case Nil
  show ?case using assms(2) by (simp add: main_loop_exit)
next
  case (Cons q questions)
  then have ih: "\<And>out. \<exists>out'. main_loop env (map Line questions @ Line x # rest) out
                               = Some (out', Inr ())"
    by simp
  from Cons.prems have q: "lower (strip q) \<noteq> ''exit''"
    "kickoff env (strip q) \<noteq> Inl KeyboardInterrupt" by simp_all
  have e: "\<And>e. kickoff env (strip q) = Inl e \<Longrightarrow> is_Exception e"
    using q(2) by (case_tac e) auto
  show ?case
    apply (simp only: map_append list.map append_Cons)
    apply (subst main_loop.simps)
    using q e ih by (auto simp: Let_def split: sum.splits)
qed

lemma main_loop_ends_only:
  assumes "main_loop env stdin out = Some r"
  shows "(\<exists>l. Line l \<in> set stdin \<and> lower (strip l) = ''exit'')
         \<or> CtrlC \<in> set stdin
         \<or> (\<exists>l. Line l \<in> set stdin \<and> kickoff env (strip l) = Inl KeyboardInterrupt)"
proof (rule main_loop.raw_induct
    [where P = "\<lambda>env stdin out r.
         (\<exists>l. Line l \<in> set stdin \<and> lower (strip l) = ''exit'')
         \<or> CtrlC \<in> set stdin
         \<or> (\<exists>l. Line l \<in> set stdin \<and> kickoff env (strip l) = Inl KeyboardInterrupt)",
     OF _ assms])
  fix loop :: "apis \<Rightarrow> stdin_event list \<Rightarrow> event list \<Rightarrow> (event list \<times> (exn + unit)) option"
    and env stdin out r
  assume ih: "\<And>env stdin out r. loop env stdin out = Some r \<Longrightarrow>
         (\<exists>l. Line l \<in> set stdin \<and> lower (strip l) = ''exit'')
         \<or> CtrlC \<in> set stdin
         \<or> (\<exists>l. Line l \<in> set stdin \<and> kickoff env (strip l) = Inl KeyboardInterrupt)"
  assume step: "(let out = out @ [Prompt (nl @ ''Ask a question (or type 'exit' to quit): '')] in
      case stdin of
        [] \<Rightarrow>
          loop env []
            (out @ [Log ERROR (''An error occurred: '' @ ''EOF when reading a line'')])
      | CtrlC # rest \<Rightarrow> Some (out @ [Log INFO (nl @ ''Exiting the program.'')], Inr ())
      | Line text # rest \<Rightarrow>
          (let question = strip text in
           if lower question = ''exit''
           then Some (out @ [Log INFO ''Exiting the program.''], Inr ())
           else if lower question = ''help''
           then loop env rest
                  (out @ [Print (nl @ ''Help:''),
                          Print ''1. Type your question to get an answer.'',
                          Print ''2. Type 'exit' to quit the program.''])
           else if question = []
           then loop env rest (out @ [Log WARNING ''Please enter a valid question.''])
           else
             (let out = out @ [Log INFO (''Processing question: '' @ question)] in
              case kickoff env question of
                Inr results \<Rightarrow>
                  loop env rest (out @ [Print (nl @ ''Answer: '' @ results @ nl)])
              | Inl e \<Rightarrow>
                  if e = KeyboardInterrupt
                  then Some (out @ [Log INFO (nl @ ''Exiting the program.'')], Inr ())
                  else if is_Exception e
                  then loop env rest
                         (out @ [Log ERROR (''An error occurred: '' @ str_exn e)])
                  else Some (out, Inl e)))) = Some r"
  show "(\<exists>l. Line l \<in> set stdin \<and> lower (strip l) = ''exit'')
         \<or> CtrlC \<in> set stdin
         \<or> (\<exists>l. Line l \<in> set stdin \<and> kickoff env (strip l) = Inl KeyboardInterrupt)"
  proof (cases stdin)
    case Nil
    with step ih [of env "[]"] show ?thesis by (cases r) (auto simp: Let_def)
  next
    case (Cons ev rest)
    have lift: ?thesis if "loop env rest out' = Some r" for out'
      using ih [OF that] Cons by auto
    show ?thesis
    proof (cases ev)
      case CtrlC
      with Cons show ?thesis by simp
    next
      case (Line l)
      show ?thesis
      proof (cases "lower (strip l) = ''exit''")
        case True
        with Cons Line show ?thesis by auto
      next
        case False
        note not_exit = False
        show ?thesis
        proof (cases "lower (strip l) = ''help'' \<or> strip l = []")
          case True
          with step Cons Line not_exit obtain out' where "loop env rest out' = Some r"
            by (auto simp: Let_def split: if_splits)
          then show ?thesis by (rule lift)
        next
          case False
          show ?thesis
          proof (cases "kickoff env (strip l)")
            case (Inr results)
            with step Cons Line not_exit False obtain out' where "loop env rest out' = Some r"
              by (auto simp: Let_def)
            then show ?thesis by (rule lift)
          next
            case (Inl e)
            show ?thesis
            proof (cases "e = KeyboardInterrupt")
              case True
              with Inl Cons Line show ?thesis by auto
            next
              case ne: False
              then have "is_Exception e" by (cases e) simp_all
              with step Cons Line not_exit False Inl ne
              obtain out' where "loop env rest out' = Some r"
                by (auto simp: Let_def)
              then show ?thesis by (rule lift)
            qed
          qed
        qed
      qed
    qed
  qed
qed

text \<open>
  C7, as amended. The loop that collects the tasks in the two hand-written programs ends
  normally exactly at the first entered line whose lowercase form is \<open>done\<close>; that line
  is not collected, and the lines entered before it are the tasks collected, in order.
  The loop of the third program ends when it reads a line whose stripped, lowercased
  form is \<open>exit\<close>, and that line is not handed to the crew; it also ends at an interrupt
  from the keyboard, at the prompt or raised out of the crew. With questions before the
  \<open>exit\<close> line, none of which interrupts, the loop reaches that line and ends; and when the
  loop ends, the input held such a line or an interrupt.
\<close>

theorem input_loops_end_at_sentinel:
  "(snd (read_tasks stdin []) = Inr tasks \<longleftrightarrow>
      (\<exists>entered s rest. stdin = map Line entered @ Line s # rest
         \<and> (\<forall>l \<in> set entered. lower l \<noteq> ''done'') \<and> lower s = ''done''
         \<and> tasks = entered))
   \<and> (lower (strip x) = ''exit'' \<longrightarrow>
        main_loop env (Line x # rest') out
          = Some (out @ [Prompt (nl @ ''Ask a question (or type 'exit' to quit): ''),
                         Log INFO ''Exiting the program.''], Inr ()))
   \<and> main_loop env (CtrlC # rest') out
        = Some (out @ [Prompt (nl @ ''Ask a question (or type 'exit' to quit): ''),
                       Log INFO (nl @ ''Exiting the program.'')], Inr ())
   \<and> (lower (strip q) \<noteq> ''exit'' \<and> lower (strip q) \<noteq> ''help'' \<and> strip q \<noteq> []
        \<and> kickoff env (strip q) = Inl KeyboardInterrupt \<longrightarrow>
        main_loop env (Line q # rest') out
          = Some (out @ [Prompt (nl @ ''Ask a question (or type 'exit' to quit): ''),
                         Log INFO (''Processing question: '' @ strip q),
                         Log INFO (nl @ ''Exiting the program.'')], Inr ()))
   \<and> (lower (strip x) = ''exit''
        \<and> (\<forall>l \<in> set questions. lower (strip l) \<noteq> ''exit''
               \<and> kickoff env (strip l) \<noteq> Inl KeyboardInterrupt) \<longrightarrow>
        (\<exists>out'. main_loop env (map Line questions @ Line x # rest') out = Some (out', Inr ())))
   \<and> (main_loop env keys out = Some r \<longrightarrow>
        (\<exists>l. Line l \<in> set keys \<and> lower (strip l) = ''exit'')
        \<or> CtrlC \<in> set keys
        \<or> (\<exists>l. Line l \<in> set keys \<and> kickoff env (strip l) = Inl KeyboardInterrupt))"
proof (intro conjI impI iffI)
  assume "snd (read_tasks stdin []) = Inr tasks"
  from read_tasks_Inr [OF this]
  show "\<exists>entered s rest. stdin = map Line entered @ Line s # rest
         \<and> (\<forall>l \<in> set entered. lower l \<noteq> ''done'') \<and> lower s = ''done''
         \<and> tasks = entered" by simp
next
  assume "\<exists>entered s rest. stdin = map Line entered @ Line s # rest
         \<and> (\<forall>l \<in> set entered. lower l \<noteq> ''done'') \<and> lower s = ''done''
         \<and> tasks = entered"
  then show "snd (read_tasks stdin []) = Inr tasks"
    by (auto simp: read_tasks_collect)
next
  assume "lower (strip x) = ''exit''"
  then show "main_loop env (Line x # rest') out
          = Some (out @ [Prompt (nl @ ''Ask a question (or type 'exit' to quit): ''),
                         Log INFO ''Exiting the program.''], Inr ())"
    by (rule main_loop_exit)
next
  show "main_loop env (CtrlC # rest') out
        = Some (out @ [Prompt (nl @ ''Ask a question (or type 'exit' to quit): ''),
                       Log INFO (nl @ ''Exiting the program.'')], Inr ())"
    by (rule main_loop_CtrlC)
next
  assume "lower (strip q) \<noteq> ''exit'' \<and> lower (strip q) \<noteq> ''help'' \<and> strip q \<noteq> []
        \<and> kickoff env (strip q) = Inl KeyboardInterrupt"
  then show "main_loop env (Line q # rest') out
          = Some (out @ [Prompt (nl @ ''Ask a question (or type 'exit' to quit): ''),
                         Log INFO (''Processing question: '' @ strip q),
                         Log INFO (nl @ ''Exiting the program.'')], Inr ())"
    using main_loop_interrupted [of q env rest' out] by blast
next
  assume "lower (strip x) = ''exit''
        \<and> (\<forall>l \<in> set questions. lower (strip l) \<noteq> ''exit''
               \<and> kickoff env (strip l) \<noteq> Inl KeyboardInterrupt)"
  then show "\<exists>out'. main_loop env (map Line questions @ Line x # rest') out = Some (out', Inr ())"
    using main_loop_reaches_exit [of questions env x rest' out] by blast
next
  assume "main_loop env keys out = Some r"
  then show "(\<exists>l. Line l \<in> set keys \<and> lower (strip l) = ''exit'')
        \<or> CtrlC \<in> set keys
        \<or> (\<exists>l. Line l \<in> set keys \<and> kickoff env (strip l) = Inl KeyboardInterrupt)"
    by (rule main_loop_ends_only)
qed

theorem input_loops_end_at_sentinel_witness:
  "snd (read_tasks [Line ''Set up the repository'', Line ''Done'', Line ''later''] [])
     = Inr [''Set up the repository'']
   \<and> main_loop sample_apis [Line '' EXIT '', Line ''later''] []
       = Some ([Prompt (nl @ ''Ask a question (or type 'exit' to quit): ''),
                Log INFO ''Exiting the program.''], Inr ())
   \<and> (\<exists>out'. main_loop sample_apis
                 (map Line [''Who is Ada Lovelace'', ''help'', ''''] @ Line ''exit'' # []) []
               = Some (out', Inr ()))
   \<and> main_loop sample_apis [Line ([CHR 0xA0] @ ''exit''), Line ''later''] []
       = Some ([Prompt (nl @ ''Ask a question (or type 'exit' to quit): ''),
                Log INFO ''Exiting the program.''], Inr ())
   \<and> main_loop (sample_apis\<lparr>kickoff := (\<lambda>question. Inl KeyboardInterrupt)\<rparr>)
         [Line ''Who is Ada Lovelace'', Line ''later''] []
       = Some ([Prompt (nl @ ''Ask a question (or type 'exit' to quit): ''),
                Log INFO ''Processing question: Who is Ada Lovelace'',
                Log INFO (nl @ ''Exiting the program.'')], Inr ())
   \<and> ((\<exists>l. Line l \<in> set [Line ''exit''] \<and> lower (strip l) = ''exit'')
        \<or> CtrlC \<in> set [Line ''exit'']
        \<or> (\<exists>l. Line l \<in> set [Line ''exit'']
               \<and> kickoff sample_apis (strip l) = Inl KeyboardInterrupt))"
proof -
  have e1: "lower (strip '' EXIT '') = ''exit''" and e2: "lower (strip ''exit'') = ''exit''"
    and e3: "lower (strip ([CHR 0xA0] @ ''exit'')) = ''exit''"
    by (simp_all add: strip_samples lower_samples)
  have q: "\<forall>l \<in> set [''Who is Ada Lovelace'', ''help'', ''''].
             lower (strip l) \<noteq> ''exit'' \<and> kickoff sample_apis (strip l) \<noteq> Inl KeyboardInterrupt"
    by (simp add: strip_samples lower_samples sample_apis_def)
  have i: "lower (strip ''Who is Ada Lovelace'') \<noteq> ''exit''
        \<and> lower (strip ''Who is Ada Lovelace'') \<noteq> ''help''
        \<and> strip ''Who is Ada Lovelace'' \<noteq> []
        \<and> kickoff (sample_apis\<lparr>kickoff := (\<lambda>question. Inl KeyboardInterrupt)\<rparr>)
              (strip ''Who is Ada Lovelace'') = Inl KeyboardInterrupt"
    by (simp add: strip_samples lower_samples)
  have d: "\<exists>entered s rest.
      [Line ''Set up the repository'', Line ''Done'', Line ''later'']
        = map Line entered @ Line s # rest
      \<and> (\<forall>l \<in> set entered. lower l \<noteq> ''done'') \<and> lower s = ''done''
      \<and> [''Set up the repository''] = entered"
  proof -
    have "[Line ''Set up the repository'', Line ''Done'', Line ''later'']
        = map Line [''Set up the repository''] @ Line ''Done'' # [Line ''later'']
      \<and> (\<forall>l \<in> set [''Set up the repository'']. lower l \<noteq> ''done'') \<and> lower ''Done'' = ''done''
      \<and> [''Set up the repository''] = [''Set up the repository'']"
      by (simp add: lower_samples)
    then show ?thesis by blast
  qed
  have r: "main_loop sample_apis [Line ''exit''] []
             = Some ([Prompt (nl @ ''Ask a question (or type 'exit' to quit): ''),
                      Log INFO ''Exiting the program.''], Inr ())"
    using input_loops_end_at_sentinel [where x = "''exit''" and env = sample_apis
        and rest' = "[]" and out = "[]"] e2 by simp
  note w1 = input_loops_end_at_sentinel
    [where stdin = "[Line ''Set up the repository'', Line ''Done'', Line ''later'']"
       and tasks = "[''Set up the repository'']" and x = "'' EXIT ''" and env = sample_apis
       and rest' = "[Line ''later'']" and out = "[]"]
  note w2 = input_loops_end_at_sentinel
    [where x = "''exit''" and env = sample_apis and rest' = "[]" and out = "[]"
       and questions = "[''Who is Ada Lovelace'', ''help'', '''']"
       and keys = "[Line ''exit'']"]
  have A: "snd (read_tasks [Line ''Set up the repository'', Line ''Done'', Line ''later''] [])
     = Inr [''Set up the repository'']"
    using w1 d by blast
  have B: "main_loop sample_apis [Line '' EXIT '', Line ''later''] []
       = Some ([Prompt (nl @ ''Ask a question (or type 'exit' to quit): ''),
                Log INFO ''Exiting the program.''], Inr ())"
    using w1 e1 by simp
  have C: "\<exists>out'. main_loop sample_apis
                 (map Line [''Who is Ada Lovelace'', ''help'', ''''] @ Line ''exit'' # []) []
               = Some (out', Inr ())"
    using w2 e2 q by blast
  have D: "(\<exists>l. Line l \<in> set [Line ''exit''] \<and> lower (strip l) = ''exit'')
        \<or> CtrlC \<in> set [Line ''exit'']
        \<or> (\<exists>l. Line l \<in> set [Line ''exit'']
               \<and> kickoff sample_apis (strip l) = Inl KeyboardInterrupt)"
    using w2 r by blast
  have E: "main_loop sample_apis [Line ([CHR 0xA0] @ ''exit''), Line ''later''] []
       = Some ([Prompt (nl @ ''Ask a question (or type 'exit' to quit): ''),
                Log INFO ''Exiting the program.''], Inr ())"
    using input_loops_end_at_sentinel
      [where x = "[CHR 0xA0] @ ''exit''" and env = sample_apis and rest' = "[Line ''later'']"
         and out = "[]"] e3
    by simp
  have F: "main_loop (sample_apis\<lparr>kickoff := (\<lambda>question. Inl KeyboardInterrupt)\<rparr>)
         [Line ''Who is Ada Lovelace'', Line ''later''] []
       = Some ([Prompt (nl @ ''Ask a question (or type 'exit' to quit): ''),
                Log INFO ''Processing question: Who is Ada Lovelace'',
                Log INFO (nl @ ''Exiting the program.'')], Inr ())"
    using input_loops_end_at_sentinel
      [where q = "''Who is Ada Lovelace''"
         and env = "sample_apis\<lparr>kickoff := (\<lambda>question. Inl KeyboardInterrupt)\<rparr>"
         and rest' = "[Line ''later'']" and out = "[]"] i
    by (simp add: strip_samples)
  from A B C D E F show ?thesis by blast
qed

text \<open>
  The claim as it was stated has the loops end exactly when the line entered is
  \<open>done\<close>, or \<open>exit\<close>. The first loop ends at \<open>DONE\<close>, the loop of the third program
  at \<open>Exit\<close> between blanks, and also at an interrupt with no line entered.
\<close>

theorem input_loops_end_at_sentinel_counterexample:
  "snd (read_tasks [Line ''DONE''] []) = Inr []
   \<and> ''DONE'' \<noteq> ''done''
   \<and> main_loop sample_apis [Line '' Exit ''] []
       = Some ([Prompt (nl @ ''Ask a question (or type 'exit' to quit): ''),
                Log INFO ''Exiting the program.''], Inr ())
   \<and> '' Exit '' \<noteq> ''exit''
   \<and> main_loop sample_apis [CtrlC] []
       = Some ([Prompt (nl @ ''Ask a question (or type 'exit' to quit): ''),
                Log INFO (nl @ ''Exiting the program.'')], Inr ())"
  by (simp add: main_loop.simps strip_samples lower_samples)

section \<open>Exceptions in the third program\<close>






end
